theory Spec2Isabelle
  imports Complex_Main
begin

section \<open>JavaScript values used by the SDKs\<close>

subsection \<open>Errors\<close>

text \<open>
  The exception classes the three SDK packages declare and test with \<open>instanceof\<close>,
  together with the built-in \<open>Error\<close> and \<open>SyntaxError\<close>. \<open>Foreign n\<close> is an error of a
  class declared elsewhere (a library error named \<open>n\<close>) that extends \<open>Error\<close> directly.
\<close>

datatype err_class =
    Error
  | SyntaxError
  | APIException
  | TradingException
  | NoLiquidityException
  | AllPlatformsFailedException
  | MarketMakerWeb3Exception
  | OfferNotFoundError
  | OfferInactiveError
  | InsufficientOfferBalanceError
  | OfferExpiredError
  | UnauthorizedError
  | RPQServiceException
  | NoOffersAvailableException
  | CrossChainAccessException
  | QuoteUnavailableException
  | InvalidSymbolException
  | OrderFailedException
  | MarketClosedException
  | AccountBlockedException
  | InsufficientFundsException
  | Foreign string

fun superclass :: "err_class \<Rightarrow> err_class option" where
  "superclass Error = None"
| "superclass NoLiquidityException = Some TradingException"
| "superclass AllPlatformsFailedException = Some TradingException"
| "superclass OfferNotFoundError = Some MarketMakerWeb3Exception"
| "superclass OfferInactiveError = Some MarketMakerWeb3Exception"
| "superclass InsufficientOfferBalanceError = Some MarketMakerWeb3Exception"
| "superclass OfferExpiredError = Some MarketMakerWeb3Exception"
| "superclass UnauthorizedError = Some MarketMakerWeb3Exception"
| "superclass NoOffersAvailableException = Some RPQServiceException"
| "superclass QuoteUnavailableException = Some CrossChainAccessException"
| "superclass InvalidSymbolException = Some CrossChainAccessException"
| "superclass OrderFailedException = Some CrossChainAccessException"
| "superclass MarketClosedException = Some CrossChainAccessException"
| "superclass AccountBlockedException = Some CrossChainAccessException"
| "superclass InsufficientFundsException = Some CrossChainAccessException"
| "superclass _ = Some Error"

fun class_name :: "err_class \<Rightarrow> string" where
  "class_name Error = ''Error''"
| "class_name SyntaxError = ''SyntaxError''"
| "class_name APIException = ''APIException''"
| "class_name TradingException = ''TradingException''"
| "class_name NoLiquidityException = ''NoLiquidityException''"
| "class_name AllPlatformsFailedException = ''AllPlatformsFailedException''"
| "class_name MarketMakerWeb3Exception = ''MarketMakerWeb3Exception''"
| "class_name OfferNotFoundError = ''OfferNotFoundError''"
| "class_name OfferInactiveError = ''OfferInactiveError''"
| "class_name InsufficientOfferBalanceError = ''InsufficientOfferBalanceError''"
| "class_name OfferExpiredError = ''OfferExpiredError''"
| "class_name UnauthorizedError = ''UnauthorizedError''"
| "class_name RPQServiceException = ''RPQServiceException''"
| "class_name NoOffersAvailableException = ''NoOffersAvailableException''"
| "class_name CrossChainAccessException = ''CrossChainAccessException''"
| "class_name QuoteUnavailableException = ''QuoteUnavailableException''"
| "class_name InvalidSymbolException = ''InvalidSymbolException''"
| "class_name OrderFailedException = ''OrderFailedException''"
| "class_name MarketClosedException = ''MarketClosedException''"
| "class_name AccountBlockedException = ''AccountBlockedException''"
| "class_name InsufficientFundsException = ''InsufficientFundsException''"
| "class_name (Foreign n) = n"

text \<open>A thrown value: its class and the \<open>message\<close> its constructor was given.\<close>

datatype js_error = Err (cls: err_class) (message: string)

text \<open>
  \<open>e instanceof C\<close>: the class of \<open>e\<close> is \<open>C\<close> or inherits from it. The hierarchy is at
  most three classes deep.
\<close>

definition instanceof :: "js_error \<Rightarrow> err_class \<Rightarrow> bool" where
  "instanceof e c =
     (cls e = c \<or>
      (case superclass (cls e) of
         None \<Rightarrow> False
       | Some p \<Rightarrow> p = c \<or> (case superclass p of None \<Rightarrow> False | Some g \<Rightarrow> g = c)))"

text \<open>
  \<open>String(e)\<close>, which is what a template literal \<open>${e}\<close> produces: the name, then the
  message after a colon when there is one (\<open>Error.prototype.toString\<close>).
\<close>

definition String_of_error :: "js_error \<Rightarrow> string" where
  "String_of_error e =
     (if class_name (cls e) = [] then message e
      else if message e = [] then class_name (cls e)
      else class_name (cls e) @ '': '' @ message e)"

subsection \<open>Numbers\<close>

text \<open>
  A JavaScript \<open>number\<close>: a finite value, one of the two infinities, or \<open>NaN\<close>. Finite
  values are exact rationals, so the rounding of binary floating point is not part of
  the model, and the two signed zeros are one value.
\<close>

datatype number = Num rat | PosInf | NegInf | NaN

fun jdiv :: "number \<Rightarrow> number \<Rightarrow> number" where
  "jdiv NaN _ = NaN"
| "jdiv _ NaN = NaN"
| "jdiv (Num x) (Num y) =
     (if y = 0 then (if x = 0 then NaN else if 0 < x then PosInf else NegInf)
      else Num (x / y))"
| "jdiv (Num x) _ = Num 0"
| "jdiv PosInf (Num y) = (if y < 0 then NegInf else PosInf)"
| "jdiv NegInf (Num y) = (if y < 0 then PosInf else NegInf)"
| "jdiv _ _ = NaN"

fun jmul :: "number \<Rightarrow> number \<Rightarrow> number" where
  "jmul NaN _ = NaN"
| "jmul _ NaN = NaN"
| "jmul (Num x) (Num y) = Num (x * y)"
| "jmul (Num x) PosInf = (if x = 0 then NaN else if 0 < x then PosInf else NegInf)"
| "jmul (Num x) NegInf = (if x = 0 then NaN else if 0 < x then NegInf else PosInf)"
| "jmul PosInf (Num y) = (if y = 0 then NaN else if 0 < y then PosInf else NegInf)"
| "jmul NegInf (Num y) = (if y = 0 then NaN else if 0 < y then NegInf else PosInf)"
| "jmul PosInf PosInf = PosInf"
| "jmul NegInf NegInf = PosInf"
| "jmul _ _ = NegInf"

text \<open>\<open>a < b\<close> and \<open>a <= b\<close>; every comparison with \<open>NaN\<close> is false.\<close>

fun jlt :: "number \<Rightarrow> number \<Rightarrow> bool" where
  "jlt NaN _ = False"
| "jlt _ NaN = False"
| "jlt (Num x) (Num y) = (x < y)"
| "jlt NegInf NegInf = False"
| "jlt NegInf _ = True"
| "jlt _ NegInf = False"
| "jlt PosInf _ = False"
| "jlt _ PosInf = True"

fun jle :: "number \<Rightarrow> number \<Rightarrow> bool" where
  "jle NaN _ = False"
| "jle _ NaN = False"
| "jle a b = (a = b \<or> jlt a b)"

definition jgt :: "number \<Rightarrow> number \<Rightarrow> bool" where
  "jgt a b = jlt b a"

definition jge :: "number \<Rightarrow> number \<Rightarrow> bool" where
  "jge a b = jle b a"

text \<open>A \<open>number\<close> in a condition: \<open>0\<close> and \<open>NaN\<close> are falsy.\<close>

definition truthy_number :: "number \<Rightarrow> bool" where
  "truthy_number n = (n \<noteq> Num 0 \<and> n \<noteq> NaN)"

text \<open>A string in a condition: \<open>undefined\<close> and the empty string are falsy.\<close>

definition truthy_string :: "string option \<Rightarrow> bool" where
  "truthy_string s = (case s of None \<Rightarrow> False | Some t \<Rightarrow> t \<noteq> [])"

subsection \<open>Strings\<close>

text \<open>
  \<open>toLowerCase\<close> and \<open>toUpperCase\<close> on the ASCII letters; every other character is kept.
\<close>

fun lower_char :: "char \<Rightarrow> char" where
  "lower_char c =
     (if c = CHR ''A'' then CHR ''a'' else if c = CHR ''B'' then CHR ''b''
      else if c = CHR ''C'' then CHR ''c'' else if c = CHR ''D'' then CHR ''d''
      else if c = CHR ''E'' then CHR ''e'' else if c = CHR ''F'' then CHR ''f''
      else if c = CHR ''G'' then CHR ''g'' else if c = CHR ''H'' then CHR ''h''
      else if c = CHR ''I'' then CHR ''i'' else if c = CHR ''J'' then CHR ''j''
      else if c = CHR ''K'' then CHR ''k'' else if c = CHR ''L'' then CHR ''l''
      else if c = CHR ''M'' then CHR ''m'' else if c = CHR ''N'' then CHR ''n''
      else if c = CHR ''O'' then CHR ''o'' else if c = CHR ''P'' then CHR ''p''
      else if c = CHR ''Q'' then CHR ''q'' else if c = CHR ''R'' then CHR ''r''
      else if c = CHR ''S'' then CHR ''s'' else if c = CHR ''T'' then CHR ''t''
      else if c = CHR ''U'' then CHR ''u'' else if c = CHR ''V'' then CHR ''v''
      else if c = CHR ''W'' then CHR ''w'' else if c = CHR ''X'' then CHR ''x''
      else if c = CHR ''Y'' then CHR ''y'' else if c = CHR ''Z'' then CHR ''z''
      else c)"

fun upper_char :: "char \<Rightarrow> char" where
  "upper_char c =
     (if c = CHR ''a'' then CHR ''A'' else if c = CHR ''b'' then CHR ''B''
      else if c = CHR ''c'' then CHR ''C'' else if c = CHR ''d'' then CHR ''D''
      else if c = CHR ''e'' then CHR ''E'' else if c = CHR ''f'' then CHR ''F''
      else if c = CHR ''g'' then CHR ''G'' else if c = CHR ''h'' then CHR ''H''
      else if c = CHR ''i'' then CHR ''I'' else if c = CHR ''j'' then CHR ''J''
      else if c = CHR ''k'' then CHR ''K'' else if c = CHR ''l'' then CHR ''L''
      else if c = CHR ''m'' then CHR ''M'' else if c = CHR ''n'' then CHR ''N''
      else if c = CHR ''o'' then CHR ''O'' else if c = CHR ''p'' then CHR ''P''
      else if c = CHR ''q'' then CHR ''Q'' else if c = CHR ''r'' then CHR ''R''
      else if c = CHR ''s'' then CHR ''S'' else if c = CHR ''t'' then CHR ''T''
      else if c = CHR ''u'' then CHR ''U'' else if c = CHR ''v'' then CHR ''V''
      else if c = CHR ''w'' then CHR ''W'' else if c = CHR ''x'' then CHR ''X''
      else if c = CHR ''y'' then CHR ''Y'' else if c = CHR ''z'' then CHR ''Z''
      else c)"

definition toLowerCase :: "string \<Rightarrow> string" where
  "toLowerCase s = map lower_char s"

definition toUpperCase :: "string \<Rightarrow> string" where
  "toUpperCase s = map upper_char s"

text \<open>\<open>hay.includes(needle)\<close>: the needle occurs in the hay as a contiguous piece.\<close>

fun starts_with :: "string \<Rightarrow> string \<Rightarrow> bool" where
  "starts_with hay [] = True"
| "starts_with [] (n # ns) = False"
| "starts_with (h # hs) (n # ns) = (h = n \<and> starts_with hs ns)"

fun string_includes :: "string \<Rightarrow> string \<Rightarrow> bool" where
  "string_includes [] needle = (needle = [])"
| "string_includes (h # hs) needle =
     (starts_with (h # hs) needle \<or> string_includes hs needle)"

subsection \<open>Number formatting and parsing\<close>

text \<open>
  \<open>Number(x.toFixed(d))\<close>: \<open>x\<close> rounded to \<open>d\<close> decimals, a tie going away from zero
  (\<open>toFixed\<close> drops the sign, picks the larger of two equally near integers, and puts the
  sign back). From \<open>1e21\<close> on, and for the infinities and \<open>NaN\<close>, \<open>toFixed\<close> prints the
  number itself, which \<open>Number\<close> reads back.
\<close>

definition round_half_up :: "nat \<Rightarrow> rat \<Rightarrow> rat" where
  "round_half_up d y = of_int \<lfloor>y * 10 ^ d + 1 / 2\<rfloor> / 10 ^ d"

definition toFixed :: "nat \<Rightarrow> number \<Rightarrow> number" where
  "toFixed d n =
     (case n of
        Num x \<Rightarrow>
          if 10 ^ 21 \<le> \<bar>x\<bar> then Num x
          else if x < 0 then Num (- round_half_up d (- x))
          else Num (round_half_up d x)
      | _ \<Rightarrow> n)"

text \<open>
  \<open>BigInt(s)\<close> for a string: surrounding white space is dropped; the empty string is \<open>0\<close>;
  otherwise the text is decimal digits with an optional sign, or \<open>0x\<close>, \<open>0o\<close>, \<open>0b\<close>
  followed by digits of that base. Anything else throws a \<open>SyntaxError\<close>, which is
  \<open>None\<close> here. White space is the six ASCII white-space characters.
\<close>

definition is_js_space :: "char \<Rightarrow> bool" where
  "is_js_space c = (c \<in> set [CHR 0x09, CHR 0x0A, CHR 0x0B, CHR 0x0C, CHR 0x0D, CHR '' ''])"

definition trim :: "string \<Rightarrow> string" where
  "trim s = rev (dropWhile is_js_space (rev (dropWhile is_js_space s)))"

definition digit_value :: "char \<Rightarrow> nat option" where
  "digit_value c =
     (let n = (of_char c :: nat) in
      if 48 \<le> n \<and> n \<le> 57 then Some (n - 48)
      else if 97 \<le> n \<and> n \<le> 122 then Some (n - 87)
      else if 65 \<le> n \<and> n \<le> 90 then Some (n - 55)
      else None)"

fun parse_digits :: "nat \<Rightarrow> nat \<Rightarrow> string \<Rightarrow> nat option" where
  "parse_digits base acc [] = Some acc"
| "parse_digits base acc (c # cs) =
     (case digit_value c of
        None \<Rightarrow> None
      | Some d \<Rightarrow> if d < base then parse_digits base (acc * base + d) cs else None)"

definition parse_natural :: "nat \<Rightarrow> string \<Rightarrow> int option" where
  "parse_natural base s =
     (if s = [] then None else map_option int (parse_digits base 0 s))"

definition BigInt :: "string \<Rightarrow> int option" where
  "BigInt s =
     (let t = trim s in
      if t = [] then Some 0
      else if starts_with t ''0x'' \<or> starts_with t ''0X'' then parse_natural 16 (drop 2 t)
      else if starts_with t ''0o'' \<or> starts_with t ''0O'' then parse_natural 8 (drop 2 t)
      else if starts_with t ''0b'' \<or> starts_with t ''0B'' then parse_natural 2 (drop 2 t)
      else if starts_with t ''+'' then parse_natural 10 (drop 1 t)
      else if starts_with t ''-'' then map_option uminus (parse_natural 10 (drop 1 t))
      else parse_natural 10 t)"

text \<open>The error of a failed \<open>BigInt(s)\<close>.\<close>

definition BigInt_error :: "string \<Rightarrow> js_error" where
  "BigInt_error s = Err SyntaxError (''Cannot convert '' @ s @ '' to a BigInt'')"

text \<open>\<open>Math.pow(10, d)\<close> for \<open>d\<close> from \<open>parseInt\<close>: an integer, or \<open>NaN\<close> (\<open>None\<close>).\<close>

definition pow10 :: "int option \<Rightarrow> number" where
  "pow10 d =
     (case d of
        None \<Rightarrow> NaN
      | Some k \<Rightarrow> if 0 \<le> k then Num (10 ^ nat k) else Num (1 / 10 ^ nat (- k)))"

section \<open>Cross-Chain Access models (\<open>crossChainAccess/models.ts\<close>)\<close>

datatype OrderSide = BUY | SELL

text \<open>A \<open>Date\<close> is the number of milliseconds it holds.\<close>

record CrossChainAccessQuote =
  bidPrice :: number
  askPrice :: number
  bidSize :: number
  askSize :: number
  timestamp :: nat
  bidExchange :: "string option"
  askExchange :: "string option"

definition getPriceForSide :: "CrossChainAccessQuote \<Rightarrow> OrderSide \<Rightarrow> number" where
  "getPriceForSide q side = (if side = BUY then askPrice q else bidPrice q)"

record AccountStatus =
  accountBlocked :: bool
  tradingBlocked :: bool
  transfersBlocked :: bool
  tradeSuspendedByUser :: bool
  marketOpen :: bool
  accountStatus :: string

definition isTradingAllowed :: "AccountStatus \<Rightarrow> bool" where
  "isTradingAllowed s =
     (\<not> accountBlocked s \<and> \<not> tradingBlocked s \<and> \<not> transfersBlocked s
      \<and> \<not> tradeSuspendedByUser s \<and> marketOpen s)"

record AccountFunds =
  cash :: number
  buyingPower :: number
  dayTradingBuyingPower :: number
  effectiveBuyingPower :: number
  nonMarginBuyingPower :: number
  regTBuyingPower :: number

definition hasSufficientFunds :: "AccountFunds \<Rightarrow> number \<Rightarrow> bool" where
  "hasSufficientFunds funds requiredAmount = jge (buyingPower funds) requiredAmount"

section \<open>Shared models (\<open>shared/src/models.ts\<close>)\<close>

record Quote =
  sellTokenAddress :: string
  buyTokenAddress :: string
  sellAmount :: number
  buyAmount :: number
  rate :: number
  source :: string
  timestamp :: nat

text \<open>
  \<open>TradeResult\<close> has every field of \<open>Quote\<close>, with the same names and types, and four
  more. \<open>network\<close> is the chain id of the \<open>Network\<close> enum.
\<close>

record TradeResult = Quote +
  txHash :: string
  orderId :: "string option"
  network :: nat
  status :: string

section \<open>Routing (\<open>trading-sdk/src/routing.ts\<close>)\<close>

text \<open>
  \<open>RoutingStrategy\<close> is a string enum: at run time a strategy is its string, and
  \<open>selectPlatform\<close> compares it with \<open>===\<close> against the five members, falling through
  when it is none of them.
\<close>

type_synonym RoutingStrategy = string

definition BEST_PRICE :: RoutingStrategy where
  "BEST_PRICE = ''best_price''"

definition CROSS_CHAIN_ACCESS_FIRST :: RoutingStrategy where
  "CROSS_CHAIN_ACCESS_FIRST = ''cross_chain_access_first''"

definition MARKET_MAKER_FIRST :: RoutingStrategy where
  "MARKET_MAKER_FIRST = ''market_maker_first''"

definition CROSS_CHAIN_ACCESS_ONLY :: RoutingStrategy where
  "CROSS_CHAIN_ACCESS_ONLY = ''cross_chain_access_only''"

definition MARKET_MAKER_ONLY :: RoutingStrategy where
  "MARKET_MAKER_ONLY = ''market_maker_only''"

datatype Platform = cross_chain_access | market_maker

record PlatformOption =
  platform :: Platform
  quote :: "Quote option"
  available :: bool
  error :: "string option"

text \<open>\<open>createPlatformOption\<close>: \<open>available\<close> defaults to true when it is not given.\<close>

definition createPlatformOption ::
  "Platform \<Rightarrow> Quote option \<Rightarrow> bool option \<Rightarrow> string option \<Rightarrow> PlatformOption" where
  "createPlatformOption p q a e =
     \<lparr>platform = p, quote = q,
      available = (case a of None \<Rightarrow> True | Some b \<Rightarrow> b), error = e\<rparr>"

definition getEffectiveRate :: "PlatformOption \<Rightarrow> number" where
  "getEffectiveRate opt =
     (case quote opt of
        None \<Rightarrow> Num 0
      | Some q \<Rightarrow>
          if sellAmount q = Num 0 then Num 0
          else jdiv (buyAmount q) (sellAmount q))"

text \<open>A template literal renders a missing \<open>error\<close> as the text \<open>undefined\<close>.\<close>

definition show_optional :: "string option \<Rightarrow> string" where
  "show_optional s = (case s of None \<Rightarrow> ''undefined'' | Some t \<Rightarrow> t)"

fun join :: "string \<Rightarrow> string list \<Rightarrow> string" where
  "join sep [] = []"
| "join sep [x] = x"
| "join sep (x # y # ys) = x @ sep @ join sep (y # ys)"

text \<open>
  \<open>Router.selectPlatform\<close>. A \<open>throw\<close> is \<open>Inl\<close>, a \<open>return\<close> is \<open>Inr\<close>; the \<open>if\<close>
  chain is the source's, in its order, including the final fall-through. The two
  venue-first blocks return inside an inner \<open>if\<close>/\<open>else if\<close> and otherwise fall through to
  the next block; each is written as its two guarded returns.
\<close>

definition selectPlatform ::
  "PlatformOption \<Rightarrow> PlatformOption \<Rightarrow> RoutingStrategy \<Rightarrow> bool \<Rightarrow> js_error + PlatformOption" where
  "selectPlatform crossChainAccessOption marketMakerOption strategy isBuy =
     (let crossChainAccessAvailable =
            (available crossChainAccessOption \<and> quote crossChainAccessOption \<noteq> None);
          marketMakerAvailable =
            (available marketMakerOption \<and> quote marketMakerOption \<noteq> None)
      in
      if \<not> crossChainAccessAvailable \<and> \<not> marketMakerAvailable then
        (let errors =
               (if truthy_string (error crossChainAccessOption)
                then [''Cross-Chain Access: '' @ show_optional (error crossChainAccessOption)]
                else [])
               @ (if truthy_string (error marketMakerOption)
                  then [''Market Maker: '' @ show_optional (error marketMakerOption)]
                  else [])
         in Inl (Err NoLiquidityException
                   (''No platforms available. '' @ join ''; '' errors)))
      else if strategy = CROSS_CHAIN_ACCESS_ONLY then
        (if \<not> crossChainAccessAvailable then
           Inl (Err NoLiquidityException
                  (''Cross-Chain Access not available: ''
                   @ show_optional (error crossChainAccessOption)))
         else Inr crossChainAccessOption)
      else if strategy = MARKET_MAKER_ONLY then
        (if \<not> marketMakerAvailable then
           Inl (Err NoLiquidityException
                  (''Market Maker not available: ''
                   @ show_optional (error marketMakerOption)))
         else Inr marketMakerOption)
      else if strategy = CROSS_CHAIN_ACCESS_FIRST \<and> crossChainAccessAvailable then
        Inr crossChainAccessOption
      else if strategy = CROSS_CHAIN_ACCESS_FIRST \<and> marketMakerAvailable then
        Inr marketMakerOption
      else if strategy = MARKET_MAKER_FIRST \<and> marketMakerAvailable then
        Inr marketMakerOption
      else if strategy = MARKET_MAKER_FIRST \<and> crossChainAccessAvailable then
        Inr crossChainAccessOption
      else if strategy = BEST_PRICE then
        (if crossChainAccessAvailable \<and> \<not> marketMakerAvailable then
           Inr crossChainAccessOption
         else if marketMakerAvailable \<and> \<not> crossChainAccessAvailable then
           Inr marketMakerOption
         else
           (let crossChainAccessRate = getEffectiveRate crossChainAccessOption;
                marketMakerRate = getEffectiveRate marketMakerOption
            in
            if isBuy then
              (if jle crossChainAccessRate marketMakerRate
               then Inr crossChainAccessOption else Inr marketMakerOption)
            else
              (if jge crossChainAccessRate marketMakerRate
               then Inr crossChainAccessOption else Inr marketMakerOption)))
      else
        (if crossChainAccessAvailable
         then Inr crossChainAccessOption else Inr marketMakerOption))"

section \<open>The unified client (\<open>trading-sdk/src/sdk/client.ts\<close>)\<close>

record TradeOptions =
  fromToken :: string
  toToken :: string
  userEmail :: string
  fromAmount :: "number option"
  toAmount :: "number option"
  toTokenSymbol :: "string option"
  routingStrategy :: "RoutingStrategy option"

text \<open>
  \<open>TradingClient\<close> holds a \<open>MarketMakerClient\<close> and a \<open>CrossChainAccessClient\<close> and
  reaches the venues only through their methods. \<open>Venues\<close> gives what each method
  answers: \<open>Inl\<close> is a rejected promise. Within one \<open>trade\<close> every method is called at
  most once, so an answer depends on the arguments only. The object parameters of
  \<open>trade\<close>, \<open>buy\<close> and \<open>sell\<close> are written as argument lists, in the order
  \<open>fromToken, toToken, fromAmount, toAmount\<close> and
  \<open>rwaTokenAddress, rwaSymbol, amount, userEmail\<close>.
\<close>

record Venues =
  marketMaker_initialize :: "js_error option"
  crossChainAccess_initialize :: "js_error option"
  marketMaker_getQuote ::
    "string \<Rightarrow> string \<Rightarrow> number option \<Rightarrow> number option \<Rightarrow> js_error + Quote"
  crossChainAccess_getQuote :: "string \<Rightarrow> js_error + Quote"
  marketMaker_trade ::
    "string \<Rightarrow> string \<Rightarrow> number option \<Rightarrow> number option \<Rightarrow> js_error + TradeResult"
  crossChainAccess_buy ::
    "string \<Rightarrow> string option \<Rightarrow> number option \<Rightarrow> string \<Rightarrow> js_error + TradeResult"
  crossChainAccess_sell ::
    "string \<Rightarrow> string option \<Rightarrow> number option \<Rightarrow> string \<Rightarrow> js_error + TradeResult"

text \<open>
  The calls a \<open>TradingClient\<close> makes, in the order it makes them: the methods of the two
  venue clients, and \<open>Router.selectPlatform\<close> with its four arguments.
\<close>

datatype call =
    MarketMakerInitialize
  | CrossChainAccessInitialize
  | MarketMakerGetQuote string string "number option" "number option"
  | CrossChainAccessGetQuote string
  | RouterSelectPlatform PlatformOption PlatformOption RoutingStrategy bool
  | MarketMakerTrade string string "number option" "number option"
  | CrossChainAccessBuy string "string option" "number option" string
  | CrossChainAccessSell string "string option" "number option" string

text \<open>
  The mutable part of a client: its \<open>initialized\<close> flag, and the calls it has made so
  far. \<open>TradingClient\<close> adds the default strategy given to its constructor
  (\<open>this.routingStrategy\<close>).
\<close>

record 'c Client =
  initialized :: bool
  calls :: "'c list"

record TradingClient = "call Client" +
  defaultRoutingStrategy :: RoutingStrategy

definition record_call :: "'c \<Rightarrow> ('c, 'm) Client_scheme \<Rightarrow> ('c, 'm) Client_scheme" where
  "record_call c st = st\<lparr>calls := calls st @ [c]\<rparr>"

text \<open>\<open>TradingClient.initialize\<close>: the Market Maker client first, then Cross-Chain Access.\<close>

definition initialize :: "Venues \<Rightarrow> TradingClient \<Rightarrow> js_error option \<times> TradingClient" where
  "initialize v st =
     (if \<not> initialized st then
        (let st1 = record_call MarketMakerInitialize st in
         case marketMaker_initialize v of
           Some e \<Rightarrow> (Some e, st1)
         | None \<Rightarrow>
             (let st2 = record_call CrossChainAccessInitialize st1 in
              case crossChainAccess_initialize v of
                Some e \<Rightarrow> (Some e, st2)
              | None \<Rightarrow> (None, st2\<lparr>initialized := True\<rparr>)))
      else (None, st))"

definition getMarketMakerOption ::
  "Venues \<Rightarrow> TradingClient \<Rightarrow> string \<Rightarrow> string \<Rightarrow> number option \<Rightarrow> number option
     \<Rightarrow> PlatformOption \<times> TradingClient" where
  "getMarketMakerOption v st fromToken' toToken' fromAmount' toAmount' =
     (let st1 = record_call (MarketMakerGetQuote fromToken' toToken' fromAmount' toAmount') st in
      case marketMaker_getQuote v fromToken' toToken' fromAmount' toAmount' of
        Inr q \<Rightarrow> (createPlatformOption market_maker (Some q) None None, st1)
      | Inl e \<Rightarrow>
          (createPlatformOption market_maker None (Some False) (Some (String_of_error e)), st1))"

definition getCrossChainAccessOption ::
  "Venues \<Rightarrow> TradingClient \<Rightarrow> string option \<Rightarrow> number option \<Rightarrow> number option
     \<Rightarrow> PlatformOption \<times> TradingClient" where
  "getCrossChainAccessOption v st symbol fromAmount' toAmount' =
     (case symbol of
        None \<Rightarrow>
          (createPlatformOption cross_chain_access None (Some False)
             (Some ''Symbol not provided''), st)
      | Some s \<Rightarrow>
          if s = [] then
            (createPlatformOption cross_chain_access None (Some False)
               (Some ''Symbol not provided''), st)
          else
            (let st1 = record_call (CrossChainAccessGetQuote s) st in
             case crossChainAccess_getQuote v s of
               Inr q \<Rightarrow> (createPlatformOption cross_chain_access (Some q) None None, st1)
             | Inl e \<Rightarrow>
                 if instanceof e MarketClosedException then
                   (createPlatformOption cross_chain_access None (Some False)
                      (Some ''Market closed''), st1)
                 else
                   (createPlatformOption cross_chain_access None (Some False)
                      (Some (String_of_error e)), st1)))"

definition executeMarketMakerTrade ::
  "Venues \<Rightarrow> TradingClient \<Rightarrow> string \<Rightarrow> string \<Rightarrow> number option \<Rightarrow> number option
     \<Rightarrow> (js_error + TradeResult) \<times> TradingClient" where
  "executeMarketMakerTrade v st fromToken' toToken' fromAmount' toAmount' =
     (marketMaker_trade v fromToken' toToken' fromAmount' toAmount',
      record_call (MarketMakerTrade fromToken' toToken' fromAmount' toAmount') st)"

definition executeCrossChainAccessTrade ::
  "Venues \<Rightarrow> TradingClient \<Rightarrow> string \<Rightarrow> string option \<Rightarrow> number option \<Rightarrow> number option
     \<Rightarrow> string \<Rightarrow> (js_error + TradeResult) \<times> TradingClient" where
  "executeCrossChainAccessTrade v st rwaTokenAddress rwaSymbol rwaAmount usdcAmount userEmail' =
     (if usdcAmount \<noteq> None then
        (crossChainAccess_buy v rwaTokenAddress rwaSymbol usdcAmount userEmail',
         record_call (CrossChainAccessBuy rwaTokenAddress rwaSymbol usdcAmount userEmail') st)
      else
        (crossChainAccess_sell v rwaTokenAddress rwaSymbol rwaAmount userEmail',
         record_call (CrossChainAccessSell rwaTokenAddress rwaSymbol rwaAmount userEmail') st))"

text \<open>
  The dispatch \<open>trade\<close> writes out twice, once for the selected platform and once for
  the fallback platform: Cross-Chain Access when the platform is \<open>cross_chain_access\<close>,
  Market Maker otherwise, with the same arguments taken from \<open>options\<close> both times.
\<close>

definition executeOn ::
  "Venues \<Rightarrow> TradingClient \<Rightarrow> Platform \<Rightarrow> TradeOptions
     \<Rightarrow> (js_error + TradeResult) \<times> TradingClient" where
  "executeOn v st p options =
     (if p = cross_chain_access then
        executeCrossChainAccessTrade v st (toToken options) (toTokenSymbol options)
          (toAmount options) (fromAmount options) (userEmail options)
      else
        executeMarketMakerTrade v st (fromToken options) (toToken options)
          (fromAmount options) (toAmount options))"

definition platform_name :: "Platform \<Rightarrow> string" where
  "platform_name p =
     (case p of cross_chain_access \<Rightarrow> ''cross_chain_access'' | market_maker \<Rightarrow> ''market_maker'')"

text \<open>
  Step 3 of \<open>trade\<close>: the \<open>try\<close> that executes on the selected platform, and its
  \<open>catch\<close>, which falls back to the other platform when the strategy is one of the three
  named and the other option's \<open>available\<close> flag is set.
\<close>

definition executeSelected ::
  "Venues \<Rightarrow> TradingClient \<Rightarrow> TradeOptions \<Rightarrow> RoutingStrategy \<Rightarrow> PlatformOption
     \<Rightarrow> PlatformOption \<Rightarrow> PlatformOption \<Rightarrow> (js_error + TradeResult) \<times> TradingClient" where
  "executeSelected v st options strategy selected marketMakerOption crossChainAccessOption =
     (case executeOn v st (platform selected) options of
        (Inr result, st1) \<Rightarrow> (Inr result, st1)
      | (Inl err, st1) \<Rightarrow>
          if strategy = BEST_PRICE
             \<or> strategy = CROSS_CHAIN_ACCESS_FIRST
             \<or> strategy = MARKET_MAKER_FIRST
          then
            (let fallbackPlatform =
                   (if platform selected = cross_chain_access
                    then market_maker else cross_chain_access);
                 fallbackOption =
                   (if platform selected = cross_chain_access
                    then marketMakerOption else crossChainAccessOption)
             in
             if available fallbackOption then
               (case executeOn v st1 fallbackPlatform options of
                  (Inr result, st2) \<Rightarrow> (Inr result, st2)
                | (Inl fallbackError, st2) \<Rightarrow>
                    (Inl (Err AllPlatformsFailedException
                            (''Primary ('' @ platform_name (platform selected)
                             @ ''): '' @ String_of_error err
                             @ ''. Fallback ('' @ platform_name fallbackPlatform
                             @ ''): '' @ String_of_error fallbackError)), st2))
             else
               (Inl (Err TradingException (''Trade failed: '' @ String_of_error err)), st1))
          else
            (Inl (Err TradingException (''Trade failed: '' @ String_of_error err)), st1))"

text \<open>
  \<open>TradingClient.trade\<close>: validation, initialization, step 1 (the two options), step 2
  (the router; its \<open>catch\<close> rethrows whatever it catches) and step 3.
\<close>

definition trade ::
  "Venues \<Rightarrow> TradingClient \<Rightarrow> TradeOptions \<Rightarrow> (js_error + TradeResult) \<times> TradingClient" where
  "trade v st options =
     (if (fromAmount options \<noteq> None \<and> toAmount options \<noteq> None)
         \<or> (fromAmount options = None \<and> toAmount options = None)
      then (Inl (Err Error ''Must provide either fromAmount OR toAmount, not both''), st)
      else
        (let strategy =
               (case routingStrategy options of
                  None \<Rightarrow> defaultRoutingStrategy st | Some s \<Rightarrow> s);
             isBuy = (fromAmount options \<noteq> None)
         in
         case (if \<not> initialized st then initialize v st else (None, st)) of
           (Some e, st1) \<Rightarrow> (Inl e, st1)
         | (None, st1) \<Rightarrow>
             (case getMarketMakerOption v st1 (fromToken options) (toToken options)
                     (fromAmount options) (toAmount options) of
                (marketMakerOption, st2) \<Rightarrow>
             (case (if truthy_string (toTokenSymbol options)
                    then getCrossChainAccessOption v st2 (toTokenSymbol options)
                           (fromAmount options) (toAmount options)
                    else (createPlatformOption cross_chain_access None (Some False)
                            (Some ''Symbol not provided''), st2)) of
                (crossChainAccessOption, st3) \<Rightarrow>
             (let st4 = record_call
                          (RouterSelectPlatform crossChainAccessOption marketMakerOption
                             strategy isBuy) st3
              in
              case selectPlatform crossChainAccessOption marketMakerOption strategy isBuy of
                Inl e \<Rightarrow> (Inl e, st4)
              | Inr selected \<Rightarrow>
                  executeSelected v st4 options strategy selected
                    marketMakerOption crossChainAccessOption)))))"

section \<open>The Cross-Chain Access client (\<open>cross-chain-access-sdk/src/sdk/client.ts\<close>)\<close>

text \<open>The attributes of the body that \<open>createOrder\<close> posts to \<open>/orders\<close>.\<close>

record OrderAttributes =
  wallet :: string
  tx_hash :: string
  asset :: string
  asset_symbol :: string
  side :: OrderSide
  price :: number
  qty :: number
  notional :: number
  chain_id :: nat
  target_chain_id :: nat
  user_email :: string

text \<open>
  What the client reaches outside itself, with what each request answers (\<open>Inl\<close> is a
  rejected promise): the authentication service, the remote configuration, the clock
  behind \<open>getMarketStatus\<close> (its answer is the pair \<open>isOpen\<close>, \<open>message\<close>), the HTTP
  requests of \<open>CrossChainAccessAPIClient\<close> with their responses already parsed, and the
  \<open>Web3Helper\<close>. \<open>post_orders\<close> answers the \<open>id\<close> of the created order when the response
  has one. \<open>transferToken\<close> resolves once the transfer is confirmed. The last four fields
  are fixed when the client is built: the USDC address of the network, the wallet
  address, the chain id, and how the run time prints a number. A request is made at
  most once in one \<open>buy\<close> or \<open>sell\<close>, so an answer depends on the arguments only.
\<close>

record CrossChainAccessWorld =
  auth_verify :: "js_error + string"
  config_getTopupAddress :: "js_error + string"
  getMarketStatus :: "bool \<times> string"
  get_status :: "js_error + AccountStatus"
  getAssetQuote :: "string \<Rightarrow> js_error + CrossChainAccessQuote"
  get_funds :: "js_error + AccountFunds"
  getBalance :: "string \<Rightarrow> js_error + number"
  transferToken :: "string option \<Rightarrow> string \<Rightarrow> number \<Rightarrow> js_error + string"
  post_orders :: "OrderAttributes \<Rightarrow> js_error + string option"
  now :: nat
  usdcAddress :: string
  walletAddress :: string
  chainId :: nat
  String_of_number :: "number \<Rightarrow> string"

datatype cca_call =
    AuthVerify
  | GetTopupAddress
  | GetAccountStatus
  | GetAssetQuote string
  | GetAccountFunds
  | GetBalance string
  | TransferToken "string option" string number
  | PostOrders OrderAttributes

text \<open>
  The mutable part of the client: \<open>initialized\<close>, the calls made, \<open>topupAddress\<close>, and
  the \<open>authToken\<close> of its API client.
\<close>

record CrossChainAccessClient = "cca_call Client" +
  topupAddress :: "string option"
  authToken :: "string option"

definition authenticate ::
  "CrossChainAccessWorld \<Rightarrow> CrossChainAccessClient \<Rightarrow> js_error option \<times> CrossChainAccessClient"
  where
  "authenticate w st =
     (let st1 = record_call AuthVerify st in
      case auth_verify w of
        Inl e \<Rightarrow> (Some e, st1)
      | Inr accessToken \<Rightarrow> (None, st1\<lparr>authToken := Some accessToken\<rparr>))"

definition loadTopupAddress ::
  "CrossChainAccessWorld \<Rightarrow> CrossChainAccessClient \<Rightarrow> js_error option \<times> CrossChainAccessClient"
  where
  "loadTopupAddress w st =
     (if \<not> truthy_string (topupAddress st) then
        (let st1 = record_call GetTopupAddress st in
         case config_getTopupAddress w of
           Inl e \<Rightarrow> (Some e, st1)
         | Inr a \<Rightarrow> (None, st1\<lparr>topupAddress := Some a\<rparr>))
      else (None, st))"

definition cca_initialize ::
  "CrossChainAccessWorld \<Rightarrow> CrossChainAccessClient \<Rightarrow> js_error option \<times> CrossChainAccessClient"
  where
  "cca_initialize w st =
     (if \<not> initialized st then
        (case authenticate w st of
           (Some e, st1) \<Rightarrow> (Some e, st1)
         | (None, st1) \<Rightarrow>
             (case loadTopupAddress w st1 of
                (Some e, st2) \<Rightarrow> (Some e, st2)
              | (None, st2) \<Rightarrow> (None, st2\<lparr>initialized := True\<rparr>)))
      else (None, st))"

text \<open>\<open>CrossChainAccessAPIClient.getAccountStatus\<close> and \<open>getAccountFunds\<close>.\<close>

definition getAccountStatus ::
  "CrossChainAccessWorld \<Rightarrow> CrossChainAccessClient
     \<Rightarrow> (js_error + AccountStatus) \<times> CrossChainAccessClient" where
  "getAccountStatus w st =
     (if \<not> truthy_string (authToken st) then
        (Inl (Err APIException
                ''Authentication token required for getting account status (status: 401)''), st)
      else (get_status w, record_call GetAccountStatus st))"

definition getAccountFunds ::
  "CrossChainAccessWorld \<Rightarrow> CrossChainAccessClient
     \<Rightarrow> (js_error + AccountFunds) \<times> CrossChainAccessClient" where
  "getAccountFunds w st =
     (if \<not> truthy_string (authToken st) then
        (Inl (Err APIException
                ''Authentication token required for getting account funds (status: 401)''), st)
      else (get_funds w, record_call GetAccountFunds st))"

text \<open>
  \<open>CrossChainAccessAPIClient.createOrder\<close>. The token check is before the \<open>try\<close>; the
  \<open>catch\<close> turns every error of the request into an \<open>OrderFailedException\<close> whose message
  is built from that error alone. The caller reads only \<open>orderId\<close> of the parsed order,
  which is all this returns.
\<close>

definition createOrder ::
  "CrossChainAccessWorld \<Rightarrow> CrossChainAccessClient \<Rightarrow> string \<Rightarrow> string \<Rightarrow> string \<Rightarrow> string
     \<Rightarrow> OrderSide \<Rightarrow> number \<Rightarrow> number \<Rightarrow> number \<Rightarrow> nat \<Rightarrow> string \<Rightarrow> nat option
     \<Rightarrow> (js_error + string) \<times> CrossChainAccessClient" where
  "createOrder w st wallet' txHash' assetAddress assetSymbol side' price' qty' notional'
       chainId' userEmail' targetChainId =
     (if \<not> truthy_string (authToken st) then
        (Inl (Err APIException
                ''Authentication token required for creating orders (status: 401)''), st)
      else
        (let data = \<lparr>wallet = toLowerCase wallet', tx_hash = txHash', asset = assetAddress,
                      asset_symbol = toUpperCase assetSymbol, side = side', price = price',
                      qty = qty', notional = notional', chain_id = chainId',
                      target_chain_id = (case targetChainId of None \<Rightarrow> chainId' | Some t \<Rightarrow> t),
                      user_email = userEmail'\<rparr>;
             st1 = record_call (PostOrders data) st
         in
         case post_orders w data of
           Inr response_id \<Rightarrow>
             (Inr (case response_id of None \<Rightarrow> ''unknown'' | Some i \<Rightarrow> i), st1)
         | Inl err \<Rightarrow>
             if instanceof err APIException then
               (Inl (Err OrderFailedException (''Order creation failed: '' @ message err)), st1)
             else
               (Inl (Err OrderFailedException
                       (''Order creation failed: '' @ String_of_error err)), st1)))"

definition checkTradingAvailability ::
  "CrossChainAccessWorld \<Rightarrow> CrossChainAccessClient
     \<Rightarrow> (js_error + bool \<times> string) \<times> CrossChainAccessClient" where
  "checkTradingAvailability w st =
     (case (if \<not> initialized st then cca_initialize w st else (None, st)) of
        (Some e, st1) \<Rightarrow> (Inl e, st1)
      | (None, st1) \<Rightarrow>
          if \<not> fst (getMarketStatus w) then (Inr (False, snd (getMarketStatus w)), st1)
          else
            (case getAccountStatus w st1 of
               (Inl err, st2) \<Rightarrow>
                 (Inr (False, ''Failed to check account status: '' @ String_of_error err), st2)
             | (Inr accStatus, st2) \<Rightarrow>
                 if \<not> isTradingAllowed accStatus then
                   (let reasons =
                          (if accountBlocked accStatus then [''account blocked''] else [])
                          @ (if tradingBlocked accStatus then [''trading blocked''] else [])
                          @ (if transfersBlocked accStatus then [''transfers blocked''] else [])
                          @ (if tradeSuspendedByUser accStatus then [''suspended by user''] else [])
                          @ (if \<not> marketOpen accStatus then [''market closed''] else [])
                    in (Inr (False, ''Trading not available: '' @ join '', '' reasons), st2))
                 else (Inr (True, ''Trading is available''), st2)))"

text \<open>\<open>CrossChainAccessClient.getQuote\<close>.\<close>

definition cca_getQuote ::
  "CrossChainAccessWorld \<Rightarrow> CrossChainAccessClient \<Rightarrow> string
     \<Rightarrow> (js_error + Quote) \<times> CrossChainAccessClient" where
  "cca_getQuote w st rwaSymbol =
     (let st1 = record_call (GetAssetQuote rwaSymbol) st in
      case getAssetQuote w rwaSymbol of
        Inl e \<Rightarrow> (Inl e, st1)
      | Inr crossChainAccessQuote \<Rightarrow>
          (Inr \<lparr>sellTokenAddress = usdcAddress w,
                buyTokenAddress = rwaSymbol,
                sellAmount = Num 1,
                buyAmount = jdiv (Num 1) (askPrice crossChainAccessQuote),
                rate = askPrice crossChainAccessQuote,
                source = ''cross_chain_access'',
                timestamp = now w\<rparr>, st1))"

definition RWA_DECIMALS :: nat where
  "RWA_DECIMALS = 9"

definition USDC_DECIMALS :: nat where
  "USDC_DECIMALS = 2"

text \<open>
  What steps 0 to 5 of \<open>executeTrade\<close> hand to steps 6 to 8: the quoted price, the two
  rounded amounts, and the token and amount to transfer.
\<close>

record TradePlan =
  plan_price :: number
  finalRwa :: number
  finalUsdc :: number
  transferTokenAddress :: string
  transferAmount :: number

text \<open>
  Step 3 of \<open>executeTrade\<close> and the rounding after it. Both order sides compute the
  amounts the same way: from \<open>rwaAmount\<close> when it is given, from \<open>usdcAmount\<close>
  otherwise. With neither given \<open>finalUsdc\<close> is \<open>undefined\<close> and \<open>finalUsdc.toFixed\<close>
  throws a \<open>TypeError\<close>; \<open>buy\<close> and \<open>sell\<close> never call \<open>executeTrade\<close> that way.
\<close>

definition calculateAmounts ::
  "number \<Rightarrow> number option \<Rightarrow> number option \<Rightarrow> js_error + number \<times> number" where
  "calculateAmounts price' rwaAmount usdcAmount =
     (case rwaAmount of
        Some r \<Rightarrow> Inr (toFixed RWA_DECIMALS r, toFixed USDC_DECIMALS (jmul r price'))
      | None \<Rightarrow>
          (case usdcAmount of
             Some u \<Rightarrow> Inr (toFixed RWA_DECIMALS (jdiv u price'), toFixed USDC_DECIMALS u)
           | None \<Rightarrow>
               Inl (Err (Foreign ''TypeError'')
                      ''Cannot read properties of undefined (reading toFixed)'')))"

text \<open>
  Steps 0 to 5 of \<open>executeTrade\<close>: initialization, the availability check, the quote,
  the amounts, the funds or balance check, and the top-up address.
\<close>

definition prepareTrade ::
  "CrossChainAccessWorld \<Rightarrow> CrossChainAccessClient \<Rightarrow> string \<Rightarrow> string
     \<Rightarrow> number option \<Rightarrow> number option \<Rightarrow> OrderSide
     \<Rightarrow> (js_error + TradePlan) \<times> CrossChainAccessClient" where
  "prepareTrade w st rwaTokenAddress rwaSymbol rwaAmount usdcAmount orderSide =
     (case (if \<not> initialized st then cca_initialize w st else (None, st)) of
        (Some e, st1) \<Rightarrow> (Inl e, st1)
      | (None, st1) \<Rightarrow>
     (case checkTradingAvailability w st1 of
        (Inl e, st2) \<Rightarrow> (Inl e, st2)
      | (Inr (isAvailable, msg), st2) \<Rightarrow>
          if \<not> isAvailable then
            (if string_includes (toLowerCase msg) ''market''
                \<or> string_includes (toLowerCase msg) ''closed''
             then (Inl (Err MarketClosedException msg), st2)
             else (Inl (Err AccountBlockedException msg), st2))
          else
     (let st3 = record_call (GetAssetQuote rwaSymbol) st2 in
      case getAssetQuote w rwaSymbol of
        Inl e \<Rightarrow> (Inl e, st3)
      | Inr crossChainAccessQuote \<Rightarrow>
     (let price' = getPriceForSide crossChainAccessQuote orderSide in
      case calculateAmounts price' rwaAmount usdcAmount of
        Inl e \<Rightarrow> (Inl e, st3)
      | Inr (finalRwa', finalUsdc') \<Rightarrow>
     (case (if orderSide = BUY then
              (case getAccountFunds w st3 of
                 (Inl e, st4) \<Rightarrow> (Inl e, st4)
               | (Inr funds, st4) \<Rightarrow>
                   if \<not> hasSufficientFunds funds finalUsdc' then
                     (Inl (Err InsufficientFundsException
                             (''Insufficient buying power: need $''
                              @ String_of_number w finalUsdc' @ '', have $''
                              @ String_of_number w (buyingPower funds))), st4)
                   else (Inr (usdcAddress w, finalUsdc'), st4))
            else
              (let st4 = record_call (GetBalance rwaTokenAddress) st3 in
               case getBalance w rwaTokenAddress of
                 Inl e \<Rightarrow> (Inl e, st4)
               | Inr rwaBalance \<Rightarrow>
                   if jlt rwaBalance finalRwa' then
                     (Inl (Err InsufficientFundsException
                             (''Insufficient RWA balance: need ''
                              @ String_of_number w finalRwa' @ '', have ''
                              @ String_of_number w rwaBalance)), st4)
                   else (Inr (rwaTokenAddress, finalRwa'), st4))) of
        (Inl e, st4) \<Rightarrow> (Inl e, st4)
      | (Inr (token, amount), st4) \<Rightarrow>
          (case (if \<not> truthy_string (topupAddress st4)
                 then loadTopupAddress w st4 else (None, st4)) of
             (Some e, st5) \<Rightarrow> (Inl e, st5)
           | (None, st5) \<Rightarrow>
               (Inr \<lparr>plan_price = price', finalRwa = finalRwa', finalUsdc = finalUsdc',
                     transferTokenAddress = token, transferAmount = amount\<rparr>, st5)))))))"

text \<open>
  Steps 6 to 8 of \<open>executeTrade\<close>: the transfer to the top-up address, the order, and
  the result. Neither call is inside a \<open>try\<close>, so an error of either leaves
  \<open>executeTrade\<close> as it is.
\<close>

definition settleTrade ::
  "CrossChainAccessWorld \<Rightarrow> CrossChainAccessClient \<Rightarrow> string \<Rightarrow> string \<Rightarrow> OrderSide
     \<Rightarrow> string \<Rightarrow> nat option \<Rightarrow> TradePlan
     \<Rightarrow> (js_error + TradeResult) \<times> CrossChainAccessClient" where
  "settleTrade w st rwaTokenAddress rwaSymbol orderSide userEmail' targetChainId plan =
     (let st1 = record_call
                  (TransferToken (topupAddress st) (transferTokenAddress plan)
                     (transferAmount plan)) st
      in
      case transferToken w (topupAddress st) (transferTokenAddress plan) (transferAmount plan) of
        Inl e \<Rightarrow> (Inl e, st1)
      | Inr txHash' \<Rightarrow>
          (case createOrder w st1 (walletAddress w) txHash' rwaTokenAddress rwaSymbol orderSide
                  (plan_price plan) (finalRwa plan) (finalUsdc plan) (chainId w) userEmail'
                  targetChainId of
             (Inl e, st2) \<Rightarrow> (Inl e, st2)
           | (Inr orderId', st2) \<Rightarrow>
               (Inr \<lparr>sellTokenAddress = transferTokenAddress plan,
                     buyTokenAddress =
                       (if orderSide = BUY then rwaTokenAddress else usdcAddress w),
                     sellAmount = transferAmount plan,
                     buyAmount = (if orderSide = BUY then finalRwa plan else finalUsdc plan),
                     rate = plan_price plan,
                     source = ''cross_chain_access'',
                     timestamp = now w,
                     txHash = txHash',
                     orderId = Some orderId',
                     network = chainId w,
                     status = ''completed''\<rparr>, st2)))"

definition executeTrade ::
  "CrossChainAccessWorld \<Rightarrow> CrossChainAccessClient \<Rightarrow> string \<Rightarrow> string
     \<Rightarrow> number option \<Rightarrow> number option \<Rightarrow> OrderSide \<Rightarrow> string \<Rightarrow> nat option
     \<Rightarrow> (js_error + TradeResult) \<times> CrossChainAccessClient" where
  "executeTrade w st rwaTokenAddress rwaSymbol rwaAmount usdcAmount orderSide userEmail'
       targetChainId =
     (case prepareTrade w st rwaTokenAddress rwaSymbol rwaAmount usdcAmount orderSide of
        (Inl e, st1) \<Rightarrow> (Inl e, st1)
      | (Inr plan, st1) \<Rightarrow>
          settleTrade w st1 rwaTokenAddress rwaSymbol orderSide userEmail' targetChainId plan)"

text \<open>\<open>CrossChainAccessClient.buy\<close> and \<open>sell\<close>.\<close>

definition buy ::
  "CrossChainAccessWorld \<Rightarrow> CrossChainAccessClient \<Rightarrow> string \<Rightarrow> string \<Rightarrow> string
     \<Rightarrow> number option \<Rightarrow> number option \<Rightarrow> nat option
     \<Rightarrow> (js_error + TradeResult) \<times> CrossChainAccessClient" where
  "buy w st rwaTokenAddress rwaSymbol userEmail' rwaAmount usdcAmount targetChainId =
     (if (rwaAmount \<noteq> None \<and> usdcAmount \<noteq> None) \<or> (rwaAmount = None \<and> usdcAmount = None)
      then (Inl (Err Error ''Must provide either rwaAmount OR usdcAmount, not both''), st)
      else executeTrade w st rwaTokenAddress rwaSymbol rwaAmount usdcAmount BUY userEmail'
             targetChainId)"

definition sell ::
  "CrossChainAccessWorld \<Rightarrow> CrossChainAccessClient \<Rightarrow> string \<Rightarrow> string \<Rightarrow> string
     \<Rightarrow> number option \<Rightarrow> number option \<Rightarrow> nat option
     \<Rightarrow> (js_error + TradeResult) \<times> CrossChainAccessClient" where
  "sell w st rwaTokenAddress rwaSymbol userEmail' rwaAmount usdcAmount targetChainId =
     (if (rwaAmount \<noteq> None \<and> usdcAmount \<noteq> None) \<or> (rwaAmount = None \<and> usdcAmount = None)
      then (Inl (Err Error ''Must provide either rwaAmount OR usdcAmount, not both''), st)
      else executeTrade w st rwaTokenAddress rwaSymbol rwaAmount usdcAmount SELL userEmail'
             targetChainId)"

text \<open>The calls that move funds: the transfers to the top-up address.\<close>

fun is_transfer :: "cca_call \<Rightarrow> bool" where
  "is_transfer (TransferToken _ _ _) = True"
| "is_transfer _ = False"

section \<open>The Market Maker client (\<open>market-maker-sdk/src/sdk/client.ts\<close>)\<close>

text \<open>\<open>SelectedOffer\<close> of \<open>rpqService/models.ts\<close>; \<open>offer_id\<close> is its field \<open>id\<close>.\<close>

record SelectedOffer =
  offer_id :: string
  withdrawalAmountPaid :: string
  withdrawalAmountPaidDecimals :: string
  offerType :: string
  maker :: string
  pricePerUnit :: string
  pricingType :: string
  depositToWithdrawalRate :: "string option"

text \<open>
  \<open>PricingType\<close> is a string enum, and \<open>getBestOffers\<close> casts whatever string the
  service sent.
\<close>

definition FIXED_PRICING :: string where
  "FIXED_PRICING = ''FixedPricing''"

definition DYNAMIC_PRICING :: string where
  "DYNAMIC_PRICING = ''DynamicPricing''"

text \<open>
  What the client reaches outside itself: the authentication service, \<open>getBestOffers\<close>
  of the \<open>RPQClient\<close> (answering \<open>result.selectedOffers\<close>; the amounts it is given are
  the numbers that \<open>String\<close> would print), and the two take-offer methods of the
  \<open>MarketMakerWeb3Client\<close>, each of which approves the token if needed, submits the
  transaction and waits for its receipt. \<open>parseInt\<close> answers \<open>None\<close> for \<open>NaN\<close>.
\<close>

record MarketMakerWorld =
  mm_auth_verify :: "js_error option"
  getBestOffers ::
    "string \<Rightarrow> string \<Rightarrow> number option \<Rightarrow> number option \<Rightarrow> js_error + SelectedOffer list"
  takeOfferDynamic ::
    "string \<Rightarrow> string \<Rightarrow> int \<Rightarrow> int \<Rightarrow> string option \<Rightarrow> js_error + string"
  takeOfferFixed :: "string \<Rightarrow> string \<Rightarrow> int \<Rightarrow> string option \<Rightarrow> js_error + string"
  parseInt :: "string \<Rightarrow> int option"
  parseFloat :: "string \<Rightarrow> number"
  mm_now :: nat
  mm_network :: nat

datatype mm_call =
    MarketMakerAuthVerify
  | GetBestOffers string string "number option" "number option"
  | TakeOfferDynamic string string int int "string option"
  | TakeOfferFixed string string int "string option"

type_synonym MarketMakerClient = "mm_call Client"

definition mm_initialize ::
  "MarketMakerWorld \<Rightarrow> MarketMakerClient \<Rightarrow> js_error option \<times> MarketMakerClient" where
  "mm_initialize w st =
     (if initialized st then (None, st)
      else
        (let st1 = record_call MarketMakerAuthVerify st in
         case mm_auth_verify w of
           Some e \<Rightarrow> (Some e, st1)
         | None \<Rightarrow> (None, st1\<lparr>initialized := True\<rparr>)))"

text \<open>
  Step 2 of \<open>MarketMakerClient.trade\<close>: the branch on the pricing type. A dynamic offer
  whose \<open>depositToWithdrawalRate\<close> is falsy (missing or empty) throws before anything is
  submitted.
\<close>

definition takeSelectedOffer ::
  "MarketMakerWorld \<Rightarrow> MarketMakerClient \<Rightarrow> SelectedOffer \<Rightarrow> string \<Rightarrow> int \<Rightarrow> string option
     \<Rightarrow> (js_error + string) \<times> MarketMakerClient" where
  "takeSelectedOffer w st selectedOffer fromToken' withdrawalAmountPaidWei affiliate =
     (if pricingType selectedOffer = DYNAMIC_PRICING then
        (case depositToWithdrawalRate selectedOffer of
           None \<Rightarrow>
             (Inl (Err MarketMakerWeb3Exception
                     (''Dynamic offer '' @ offer_id selectedOffer
                      @ '' missing depositToWithdrawalRate'')), st)
         | Some r \<Rightarrow>
             if r = [] then
               (Inl (Err MarketMakerWeb3Exception
                       (''Dynamic offer '' @ offer_id selectedOffer
                        @ '' missing depositToWithdrawalRate'')), st)
             else
               (case BigInt r of
                  None \<Rightarrow> (Inl (BigInt_error r), st)
                | Some maxRate \<Rightarrow>
                    (takeOfferDynamic w (offer_id selectedOffer) fromToken'
                       withdrawalAmountPaidWei maxRate affiliate,
                     record_call
                       (TakeOfferDynamic (offer_id selectedOffer) fromToken'
                          withdrawalAmountPaidWei maxRate affiliate) st)))
      else
        (takeOfferFixed w (offer_id selectedOffer) fromToken' withdrawalAmountPaidWei affiliate,
         record_call
           (TakeOfferFixed (offer_id selectedOffer) fromToken' withdrawalAmountPaidWei
              affiliate) st))"

text \<open>The body of the \<open>try\<close> in \<open>MarketMakerClient.trade\<close>.\<close>

definition tradeAttempt ::
  "MarketMakerWorld \<Rightarrow> MarketMakerClient \<Rightarrow> string \<Rightarrow> string \<Rightarrow> number option
     \<Rightarrow> number option \<Rightarrow> string option \<Rightarrow> (js_error + TradeResult) \<times> MarketMakerClient" where
  "tradeAttempt w st fromToken' toToken' fromAmount' toAmount' affiliate =
     (let targetSell = (case fromAmount' of
                          None \<Rightarrow> None
                        | Some a \<Rightarrow> if truthy_number a then Some a else None);
          targetBuy = (case toAmount' of
                         None \<Rightarrow> None
                       | Some a \<Rightarrow> if truthy_number a then Some a else None);
          st1 = record_call (GetBestOffers toToken' fromToken' targetSell targetBuy) st
      in
      case getBestOffers w toToken' fromToken' targetSell targetBuy of
        Inl e \<Rightarrow> (Inl e, st1)
      | Inr selectedOffers \<Rightarrow>
          (case selectedOffers of
             [] \<Rightarrow>
               (Inl (Err NoOffersAvailableException
                       ''No suitable offers found for this trade''), st1)
           | selectedOffer # _ \<Rightarrow>
               (let withdrawalDecimals = parseInt w (withdrawalAmountPaidDecimals selectedOffer)
                in
                case BigInt (withdrawalAmountPaid selectedOffer) of
                  None \<Rightarrow> (Inl (BigInt_error (withdrawalAmountPaid selectedOffer)), st1)
                | Some withdrawalAmountPaidWei \<Rightarrow>
                    (let withdrawalAmountPaidNormalized =
                           jdiv (Num (of_int withdrawalAmountPaidWei)) (pow10 withdrawalDecimals)
                     in
                     case takeSelectedOffer w st1 selectedOffer fromToken'
                            withdrawalAmountPaidWei affiliate of
                       (Inl e, st2) \<Rightarrow> (Inl e, st2)
                     | (Inr txHash', st2) \<Rightarrow>
                         (let pricePerUnit' = parseFloat w (pricePerUnit selectedOffer);
                              depositAmountReceivedNormalized =
                                (if jgt pricePerUnit' (Num 0)
                                 then jdiv withdrawalAmountPaidNormalized pricePerUnit'
                                 else Num 0)
                          in
                          (Inr \<lparr>sellTokenAddress = fromToken',
                                buyTokenAddress = toToken',
                                sellAmount = withdrawalAmountPaidNormalized,
                                buyAmount = depositAmountReceivedNormalized,
                                rate = pricePerUnit',
                                source = ''market_maker'',
                                timestamp = mm_now w,
                                txHash = txHash',
                                orderId = Some (offer_id selectedOffer),
                                network = mm_network w,
                                status = ''completed''\<rparr>, st2))))))"

text \<open>
  \<open>MarketMakerClient.trade\<close>: initialization outside the \<open>try\<close>, then the \<open>try\<close>; its
  \<open>catch\<close> rethrows a \<open>NoOffersAvailableException\<close> or a \<open>MarketMakerWeb3Exception\<close> and
  wraps every other error in a \<open>MarketMakerWeb3Exception\<close>.
\<close>

definition mm_trade ::
  "MarketMakerWorld \<Rightarrow> MarketMakerClient \<Rightarrow> string \<Rightarrow> string \<Rightarrow> number option
     \<Rightarrow> number option \<Rightarrow> string option \<Rightarrow> (js_error + TradeResult) \<times> MarketMakerClient" where
  "mm_trade w st fromToken' toToken' fromAmount' toAmount' affiliate =
     (case (if \<not> initialized st then mm_initialize w st else (None, st)) of
        (Some e, st1) \<Rightarrow> (Inl e, st1)
      | (None, st1) \<Rightarrow>
          (case tradeAttempt w st1 fromToken' toToken' fromAmount' toAmount' affiliate of
             (Inr result, st2) \<Rightarrow> (Inr result, st2)
           | (Inl err, st2) \<Rightarrow>
               if instanceof err NoOffersAvailableException
                  \<or> instanceof err MarketMakerWeb3Exception
               then (Inl err, st2)
               else
                 (Inl (Err MarketMakerWeb3Exception
                         (''Trade execution failed: '' @ String_of_error err)), st2)))"

section \<open>Example inputs\<close>

text \<open>Concrete quotes, options, venues and requests, used to run the definitions.\<close>

definition quoteA :: Quote where
  "quoteA = \<lparr>sellTokenAddress = ''0xUSDC'', buyTokenAddress = ''AAPL'', sellAmount = Num 1,
     buyAmount = Num (1/2), rate = Num 2, source = ''cross_chain_access'', timestamp = 0\<rparr>"

definition quoteB :: Quote where
  "quoteB = \<lparr>sellTokenAddress = ''0xUSDC'', buyTokenAddress = ''0xRWA'', sellAmount = Num 4,
     buyAmount = Num 3, rate = Num (3/4), source = ''Market Maker RPQ'', timestamp = 0\<rparr>"

definition optionA :: PlatformOption where
  "optionA = createPlatformOption cross_chain_access (Some quoteA) None None"

definition optionB :: PlatformOption where
  "optionB = createPlatformOption market_maker (Some quoteB) None None"

definition optionB_down :: PlatformOption where
  "optionB_down = createPlatformOption market_maker None (Some False) (Some ''Error: timeout'')"

definition resultB :: TradeResult where
  "resultB = \<lparr>sellTokenAddress = ''0xUSDC'', buyTokenAddress = ''0xRWA'', sellAmount = Num 100,
     buyAmount = Num 75, rate = Num (4/3), source = ''market_maker'', timestamp = 0,
     txHash = ''0xfeed'', orderId = Some ''7'', network = 137, status = ''completed''\<rparr>"

definition venuesA :: Venues where
  "venuesA = \<lparr>marketMaker_initialize = None, crossChainAccess_initialize = None,
     marketMaker_getQuote = (\<lambda>_ _ _ _. Inr quoteB),
     crossChainAccess_getQuote = (\<lambda>_. Inr quoteA),
     marketMaker_trade = (\<lambda>_ _ _ _. Inr resultB),
     crossChainAccess_buy = (\<lambda>_ _ _ _. Inl (Err OrderFailedException ''Order creation failed: boom'')),
     crossChainAccess_sell = (\<lambda>_ _ _ _. Inl (Err MarketClosedException ''Market is closed''))\<rparr>"

definition venuesDown :: Venues where
  "venuesDown = venuesA\<lparr>
     marketMaker_getQuote := (\<lambda>_ _ _ _. Inl (Err RPQServiceException ''Failed to get quote'')),
     marketMaker_trade := (\<lambda>_ _ _ _. Inl (Err MarketMakerWeb3Exception ''Transaction reverted''))\<rparr>"

definition venuesFail :: Venues where
  "venuesFail = venuesA\<lparr>
     marketMaker_trade := (\<lambda>_ _ _ _. Inl (Err MarketMakerWeb3Exception ''Transaction reverted''))\<rparr>"

definition venuesClosed :: Venues where
  "venuesClosed = venuesA\<lparr>
     crossChainAccess_getQuote := (\<lambda>_. Inl (Err MarketClosedException ''Market is closed''))\<rparr>"

definition optionsBuy :: TradeOptions where
  "optionsBuy = \<lparr>fromToken = ''0xUSDC'', toToken = ''0xRWA'', userEmail = ''user@example.com'',
     fromAmount = Some (Num 100), toAmount = None, toTokenSymbol = Some ''AAPL'',
     routingStrategy = None\<rparr>"

definition optionsSell :: TradeOptions where
  "optionsSell = optionsBuy\<lparr>fromAmount := None, toAmount := Some (Num 10)\<rparr>"

definition client0 :: TradingClient where
  "client0 = \<lparr>initialized = False, calls = [], defaultRoutingStrategy = BEST_PRICE\<rparr>"

definition client1 :: TradingClient where
  "client1 = \<lparr>initialized = True, calls = [], defaultRoutingStrategy = BEST_PRICE\<rparr>"

definition quote2 :: CrossChainAccessQuote where
  "quote2 = \<lparr>bidPrice = Num (199/100), askPrice = Num 2, bidSize = Num 100, askSize = Num 100,
     CrossChainAccessQuote.timestamp = 0, bidExchange = None, askExchange = None\<rparr>"

definition statusOk :: AccountStatus where
  "statusOk = \<lparr>accountBlocked = False, tradingBlocked = False, transfersBlocked = False,
     tradeSuspendedByUser = False, marketOpen = True, accountStatus = ''ACTIVE''\<rparr>"

definition fundsOk :: AccountFunds where
  "fundsOk = \<lparr>cash = Num 1000, buyingPower = Num 1000, dayTradingBuyingPower = Num 1000,
     effectiveBuyingPower = Num 1000, nonMarginBuyingPower = Num 1000,
     regTBuyingPower = Num 1000\<rparr>"

definition worldA :: CrossChainAccessWorld where
  "worldA = \<lparr>auth_verify = Inr ''token'',
     config_getTopupAddress = Inr ''0xE5C0'',
     getMarketStatus = (True, ''Market is open. Closes in 2h 0m''),
     get_status = Inr statusOk,
     getAssetQuote = (\<lambda>_. Inr quote2),
     get_funds = Inr fundsOk,
     getBalance = (\<lambda>_. Inr (Num 50)),
     transferToken = (\<lambda>_ _ _. Inr ''0x7a11''),
     post_orders = (\<lambda>_. Inl (Err APIException ''Internal server error (status: 500)'')),
     now = 0, usdcAddress = ''0xUSDC'', walletAddress = ''0xABCD'', chainId = 137,
     String_of_number = (\<lambda>_. ''?'')\<rparr>"

definition ccaClient0 :: CrossChainAccessClient where
  "ccaClient0 = \<lparr>initialized = False, calls = [], topupAddress = None, authToken = None\<rparr>"

definition ccaClient1 :: CrossChainAccessClient where
  "ccaClient1 = \<lparr>initialized = True, calls = [], topupAddress = Some ''0xE5C0'',
     authToken = Some ''token''\<rparr>"

definition plan2 :: TradePlan where
  "plan2 = \<lparr>plan_price = Num 2, finalRwa = Num 50, finalUsdc = Num 100,
     transferTokenAddress = ''0xUSDC'', transferAmount = Num 100\<rparr>"

definition ccaClientReady :: CrossChainAccessClient where
  "ccaClientReady = \<lparr>initialized = True,
     calls = [AuthVerify, GetTopupAddress, GetAccountStatus, GetAssetQuote ''AAPL'',
              GetAccountFunds],
     topupAddress = Some ''0xE5C0'', authToken = Some ''token''\<rparr>"

definition order2 :: OrderAttributes where
  "order2 = \<lparr>wallet = ''0xabcd'', tx_hash = ''0x7a11'', asset = ''0xRWA'',
     asset_symbol = ''AAPL'', side = BUY, price = Num 2, qty = Num 50, notional = Num 100,
     chain_id = 137, target_chain_id = 137, user_email = ''user@example.com''\<rparr>"

definition offerDynamic :: SelectedOffer where
  "offerDynamic = \<lparr>offer_id = ''42'', withdrawalAmountPaid = ''1000000'',
     withdrawalAmountPaidDecimals = ''6'', offerType = ''PartialOffer'', maker = ''0xMAKER'',
     pricePerUnit = ''2'', pricingType = DYNAMIC_PRICING,
     depositToWithdrawalRate = Some ''2000000''\<rparr>"

definition offerDynamicNoRate :: SelectedOffer where
  "offerDynamicNoRate = offerDynamic\<lparr>depositToWithdrawalRate := None\<rparr>"

definition offerDynamicBadRate :: SelectedOffer where
  "offerDynamicBadRate = offerDynamic\<lparr>depositToWithdrawalRate := Some ''1.5''\<rparr>"

definition offerFixed :: SelectedOffer where
  "offerFixed = offerDynamic\<lparr>pricingType := FIXED_PRICING, depositToWithdrawalRate := None\<rparr>"

definition mmWorld :: "SelectedOffer list \<Rightarrow> MarketMakerWorld" where
  "mmWorld offers = \<lparr>mm_auth_verify = None,
     getBestOffers = (\<lambda>_ _ _ _. Inr offers),
     takeOfferDynamic = (\<lambda>_ _ _ _ _. Inr ''0xd1''),
     takeOfferFixed = (\<lambda>_ _ _ _. Inr ''0xf1''),
     parseInt = (\<lambda>_. Some 6), parseFloat = (\<lambda>_. Num 2), mm_now = 0, mm_network = 137\<rparr>"

definition mmClient1 :: MarketMakerClient where
  "mmClient1 = \<lparr>initialized = True, calls = []\<rparr>"

section \<open>Facts about the router\<close>

lemmas strategy_defs = BEST_PRICE_def CROSS_CHAIN_ACCESS_FIRST_def MARKET_MAKER_FIRST_def
  CROSS_CHAIN_ACCESS_ONLY_def MARKET_MAKER_ONLY_def

lemmas example_defs = quoteA_def quoteB_def optionA_def optionB_def optionB_down_def
  createPlatformOption_def resultB_def venuesA_def venuesDown_def venuesFail_def venuesClosed_def optionsBuy_def optionsSell_def
  client0_def client1_def

lemmas client_defs = initialize_def getMarketMakerOption_def getCrossChainAccessOption_def
  executeMarketMakerTrade_def executeCrossChainAccessTrade_def executeOn_def platform_name_def
  executeSelected_def trade_def record_call_def truthy_string_def String_of_error_def


lemma sp_neither:
  assumes "\<not> (available cca \<and> quote cca \<noteq> None)" "\<not> (available mm \<and> quote mm \<noteq> None)"
  shows "\<exists>msg. selectPlatform cca mm strategy isBuy = Inl (Err NoLiquidityException msg)"
  using assms unfolding selectPlatform_def Let_def
  by (cases "available mm"; cases "quote mm"; cases "available cca"; cases "quote cca"; simp)

lemma sp_cca_alone:
  assumes "available cca" "quote cca \<noteq> None" "\<not> (available mm \<and> quote mm \<noteq> None)"
  shows "selectPlatform cca mm strategy isBuy =
           (if strategy = MARKET_MAKER_ONLY
            then Inl (Err NoLiquidityException
                       (''Market Maker not available: '' @ show_optional (error mm)))
            else Inr cca)"
  using assms unfolding selectPlatform_def Let_def strategy_defs
  by (cases "available mm"; cases "quote mm"; simp)

lemma sp_mm_alone:
  assumes "available mm" "quote mm \<noteq> None" "\<not> (available cca \<and> quote cca \<noteq> None)"
  shows "selectPlatform cca mm strategy isBuy =
           (if strategy = CROSS_CHAIN_ACCESS_ONLY
            then Inl (Err NoLiquidityException
                       (''Cross-Chain Access not available: '' @ show_optional (error cca)))
            else Inr mm)"
  using assms unfolding selectPlatform_def Let_def strategy_defs
  by (cases "available cca"; cases "quote cca"; simp)

lemma sp_both:
  assumes "available cca" "quote cca \<noteq> None" "available mm" "quote mm \<noteq> None"
  shows "selectPlatform cca mm strategy isBuy =
           (if strategy = CROSS_CHAIN_ACCESS_ONLY then Inr cca
            else if strategy = MARKET_MAKER_ONLY then Inr mm
            else if strategy = CROSS_CHAIN_ACCESS_FIRST then Inr cca
            else if strategy = MARKET_MAKER_FIRST then Inr mm
            else if strategy = BEST_PRICE then
              (if isBuy then
                 (if jle (getEffectiveRate cca) (getEffectiveRate mm) then Inr cca else Inr mm)
               else
                 (if jge (getEffectiveRate cca) (getEffectiveRate mm) then Inr cca else Inr mm))
            else Inr cca)"
  using assms unfolding selectPlatform_def Let_def strategy_defs by simp


text \<open>
  Claim C3. Under \<open>BEST_PRICE\<close>, an option counts as available when its flag is set and
  its quote is present. When exactly one option is available, \<open>selectPlatform\<close> returns
  it. When both are, each rate is \<open>buyAmount / sellAmount\<close> of the quote (\<open>0\<close> when
  \<open>sellAmount\<close> is \<open>0\<close>), and the Cross-Chain Access option is returned exactly when the
  order is a buy and its rate is \<open><=\<close> the Market Maker rate, or the order is a sell and
  its rate is \<open>>=\<close> the Market Maker rate; otherwise the Market Maker option is
  returned. A tie goes to Cross-Chain Access in both directions.
\<close>

theorem selectPlatform_best_price:
  "(available cca \<and> quote cca \<noteq> None \<and> \<not> (available mm \<and> quote mm \<noteq> None)
      \<longrightarrow> selectPlatform cca mm BEST_PRICE isBuy = Inr cca)
   \<and> (available mm \<and> quote mm \<noteq> None \<and> \<not> (available cca \<and> quote cca \<noteq> None)
      \<longrightarrow> selectPlatform cca mm BEST_PRICE isBuy = Inr mm)
   \<and> (available cca \<and> quote cca = Some qc \<and> available mm \<and> quote mm = Some qm
      \<longrightarrow> getEffectiveRate cca
            = (if sellAmount qc = Num 0 then Num 0 else jdiv (buyAmount qc) (sellAmount qc))
          \<and> getEffectiveRate mm
            = (if sellAmount qm = Num 0 then Num 0 else jdiv (buyAmount qm) (sellAmount qm))
          \<and> selectPlatform cca mm BEST_PRICE isBuy =
            (if (isBuy \<and> jle (getEffectiveRate cca) (getEffectiveRate mm))
                \<or> (\<not> isBuy \<and> jge (getEffectiveRate cca) (getEffectiveRate mm))
             then Inr cca else Inr mm))"
proof (intro conjI impI)
  assume "available cca \<and> quote cca \<noteq> None \<and> \<not> (available mm \<and> quote mm \<noteq> None)"
  then show "selectPlatform cca mm BEST_PRICE isBuy = Inr cca"
    by (simp add: sp_cca_alone strategy_defs)
next
  assume "available mm \<and> quote mm \<noteq> None \<and> \<not> (available cca \<and> quote cca \<noteq> None)"
  then show "selectPlatform cca mm BEST_PRICE isBuy = Inr mm"
    by (simp add: sp_mm_alone strategy_defs)
next
  assume a: "available cca \<and> quote cca = Some qc \<and> available mm \<and> quote mm = Some qm"
  then show "getEffectiveRate cca
      = (if sellAmount qc = Num 0 then Num 0 else jdiv (buyAmount qc) (sellAmount qc))"
    by (simp add: getEffectiveRate_def)
  from a show "getEffectiveRate mm
      = (if sellAmount qm = Num 0 then Num 0 else jdiv (buyAmount qm) (sellAmount qm))"
    by (simp add: getEffectiveRate_def)
  from a have "selectPlatform cca mm BEST_PRICE isBuy =
      (if isBuy then
         (if jle (getEffectiveRate cca) (getEffectiveRate mm) then Inr cca else Inr mm)
       else
         (if jge (getEffectiveRate cca) (getEffectiveRate mm) then Inr cca else Inr mm))"
    by (simp add: sp_both strategy_defs)
  then show "selectPlatform cca mm BEST_PRICE isBuy =
      (if (isBuy \<and> jle (getEffectiveRate cca) (getEffectiveRate mm))
          \<or> (\<not> isBuy \<and> jge (getEffectiveRate cca) (getEffectiveRate mm))
       then Inr cca else Inr mm)"
    by simp
qed

theorem selectPlatform_best_price_witness:
  "selectPlatform optionA optionB BEST_PRICE True = Inr optionA
   \<and> selectPlatform optionA optionB BEST_PRICE False = Inr optionB
   \<and> selectPlatform optionA optionB_down BEST_PRICE False = Inr optionA
   \<and> getEffectiveRate optionA = Num (1/2) \<and> getEffectiveRate optionB = Num (3/4)"
  using selectPlatform_best_price
      [where cca = optionA and mm = optionB and qc = quoteA and qm = quoteB and isBuy = True]
    selectPlatform_best_price
      [where cca = optionA and mm = optionB and qc = quoteA and qm = quoteB and isBuy = False]
    selectPlatform_best_price
      [where cca = optionA and mm = optionB_down and qc = quoteA and qm = quoteB and isBuy = False]
  by (simp add: example_defs jge_def)

text \<open>
  Claim C6. Under \<open>CROSS_CHAIN_ACCESS_ONLY\<close> every option \<open>selectPlatform\<close> returns is the
  Cross-Chain Access option, whatever the Market Maker option holds; it is returned
  whenever it is available, and a \<open>NoLiquidityException\<close> is thrown whenever its flag is
  unset or its quote is missing. \<open>MARKET_MAKER_ONLY\<close> is the mirror image.
\<close>

theorem selectPlatform_only:
  "(\<forall>r. selectPlatform cca mm CROSS_CHAIN_ACCESS_ONLY isBuy = Inr r \<longrightarrow> r = cca)
   \<and> (available cca \<and> quote cca \<noteq> None
        \<longrightarrow> selectPlatform cca mm CROSS_CHAIN_ACCESS_ONLY isBuy = Inr cca)
   \<and> (\<not> (available cca \<and> quote cca \<noteq> None)
        \<longrightarrow> (\<exists>msg. selectPlatform cca mm CROSS_CHAIN_ACCESS_ONLY isBuy
                      = Inl (Err NoLiquidityException msg)))
   \<and> (\<forall>r. selectPlatform cca mm MARKET_MAKER_ONLY isBuy = Inr r \<longrightarrow> r = mm)
   \<and> (available mm \<and> quote mm \<noteq> None
        \<longrightarrow> selectPlatform cca mm MARKET_MAKER_ONLY isBuy = Inr mm)
   \<and> (\<not> (available mm \<and> quote mm \<noteq> None)
        \<longrightarrow> (\<exists>msg. selectPlatform cca mm MARKET_MAKER_ONLY isBuy
                      = Inl (Err NoLiquidityException msg)))"
proof -
  have c_yes: "selectPlatform cca mm CROSS_CHAIN_ACCESS_ONLY isBuy = Inr cca"
    if "available cca \<and> quote cca \<noteq> None"
  proof (cases "available mm \<and> quote mm \<noteq> None")
    case True
    with that show ?thesis by (simp add: sp_both)
  next
    case False
    with that show ?thesis by (simp add: sp_cca_alone strategy_defs)
  qed
  have c_no: "\<exists>msg. selectPlatform cca mm CROSS_CHAIN_ACCESS_ONLY isBuy
                = Inl (Err NoLiquidityException msg)"
    if "\<not> (available cca \<and> quote cca \<noteq> None)"
  proof (cases "available mm \<and> quote mm \<noteq> None")
    case True
    with that show ?thesis by (simp add: sp_mm_alone)
  next
    case False
    with that show ?thesis by (rule sp_neither)
  qed
  have m_yes: "selectPlatform cca mm MARKET_MAKER_ONLY isBuy = Inr mm"
    if "available mm \<and> quote mm \<noteq> None"
  proof (cases "available cca \<and> quote cca \<noteq> None")
    case True
    with that show ?thesis by (simp add: sp_both strategy_defs)
  next
    case False
    with that show ?thesis by (simp add: sp_mm_alone strategy_defs)
  qed
  have m_no: "\<exists>msg. selectPlatform cca mm MARKET_MAKER_ONLY isBuy
                = Inl (Err NoLiquidityException msg)"
    if "\<not> (available mm \<and> quote mm \<noteq> None)"
  proof (cases "available cca \<and> quote cca \<noteq> None")
    case True
    with that show ?thesis by (simp add: sp_cca_alone)
  next
    case False
    then show ?thesis using that by (rule sp_neither)
  qed
  have c_ret: "r = cca" if "selectPlatform cca mm CROSS_CHAIN_ACCESS_ONLY isBuy = Inr r" for r
    using that c_yes c_no by (cases "available cca \<and> quote cca \<noteq> None") auto
  have m_ret: "r = mm" if "selectPlatform cca mm MARKET_MAKER_ONLY isBuy = Inr r" for r
    using that m_yes m_no by (cases "available mm \<and> quote mm \<noteq> None") auto
  show ?thesis
    using c_yes c_no m_yes m_no c_ret m_ret by blast
qed

theorem selectPlatform_only_witness:
  "selectPlatform optionA optionB CROSS_CHAIN_ACCESS_ONLY False = Inr optionA
   \<and> selectPlatform optionA optionB MARKET_MAKER_ONLY True = Inr optionB
   \<and> (\<exists>msg. selectPlatform optionA optionB_down MARKET_MAKER_ONLY True
               = Inl (Err NoLiquidityException msg))"
  using selectPlatform_only [of optionA optionB False]
    selectPlatform_only [of optionA optionB True]
    selectPlatform_only [of optionA optionB_down True]
  by (simp add: example_defs)

text \<open>
  Claim C9. For every pair of options, every strategy string (one of the five members or
  any other value, which reaches the final fall-through) and both directions,
  \<open>selectPlatform\<close> either throws a \<open>NoLiquidityException\<close> or returns one of its two
  arguments, and the option it returns has its flag set and its quote present.
\<close>

theorem selectPlatform_returns_available:
  "case selectPlatform cca mm strategy isBuy of
     Inl e \<Rightarrow> cls e = NoLiquidityException
   | Inr r \<Rightarrow> available r \<and> quote r \<noteq> None \<and> (r = cca \<or> r = mm)"
proof (cases "available cca \<and> quote cca \<noteq> None")
  case c: True
  show ?thesis
  proof (cases "available mm \<and> quote mm \<noteq> None")
    case True
    with c show ?thesis by (simp add: sp_both)
  next
    case False
    with c show ?thesis by (simp add: sp_cca_alone)
  qed
next
  case c: False
  show ?thesis
  proof (cases "available mm \<and> quote mm \<noteq> None")
    case True
    with c show ?thesis by (simp add: sp_mm_alone)
  next
    case False
    from sp_neither [OF c False] obtain msg where
      "selectPlatform cca mm strategy isBuy = Inl (Err NoLiquidityException msg)" by blast
    then show ?thesis by simp
  qed
qed

theorem selectPlatform_returns_available_witness:
  "selectPlatform optionA optionB_down ''no_such_strategy'' True = Inr optionA
   \<and> available optionA \<and> quote optionA \<noteq> None"
  using selectPlatform_returns_available [of optionA optionB_down "''no_such_strategy''" True]
  by (simp add: example_defs selectPlatform_def strategy_defs)

section \<open>Facts about the unified client\<close>

lemma executeOn_calls:
  "\<exists>c. calls (snd (executeOn v st p options)) = calls st @ [c]"
  by (simp add: executeOn_def executeCrossChainAccessTrade_def executeMarketMakerTrade_def
      record_call_def)

lemma executeOn_call:
  "calls (snd (executeOn v st p options)) =
     calls st @
       [if p = cross_chain_access then
          (if fromAmount options \<noteq> None
           then CrossChainAccessBuy (toToken options) (toTokenSymbol options)
                  (fromAmount options) (userEmail options)
           else CrossChainAccessSell (toToken options) (toTokenSymbol options)
                  (toAmount options) (userEmail options))
        else MarketMakerTrade (fromToken options) (toToken options)
               (fromAmount options) (toAmount options)]"
  by (simp add: executeOn_def executeCrossChainAccessTrade_def executeMarketMakerTrade_def
      record_call_def)

lemma getCrossChainAccessOption_calls:
  "\<exists>xs. calls (snd (getCrossChainAccessOption v st symbol a b)) = calls st @ xs"
  by (simp add: getCrossChainAccessOption_def record_call_def Let_def
      split: option.split sum.split)

lemma getMarketMakerOption_calls:
  "calls (snd (getMarketMakerOption v st a b c d)) = calls st @ [MarketMakerGetQuote a b c d]"
  by (simp add: getMarketMakerOption_def record_call_def Let_def split: sum.split)

lemma initialize_calls:
  "\<not> initialized st \<Longrightarrow>
   \<exists>xs. calls (snd (initialize v st)) = calls st @ MarketMakerInitialize # xs"
  by (simp add: initialize_def record_call_def Let_def split: option.split)

lemma executeSelected_calls:
  "\<exists>xs. calls (snd (executeSelected v st options strategy selected mm cca)) = calls st @ xs"
proof -
  obtain r1 st1 where e1: "executeOn v st (platform selected) options = (r1, st1)"
    by (cases "executeOn v st (platform selected) options")
  obtain c1 where c1: "calls st1 = calls st @ [c1]"
    using executeOn_calls [of v st "platform selected" options] e1 by auto
  let ?fb = "if platform selected = cross_chain_access then market_maker else cross_chain_access"
  obtain r2 st2 where e2: "executeOn v st1 ?fb options = (r2, st2)"
    by (cases "executeOn v st1 ?fb options")
  obtain c2 where c2: "calls st2 = calls st1 @ [c2]"
    using executeOn_calls [of v st1 ?fb options] e2 by auto
  show ?thesis
    using e1 e2 c1 c2
    by (cases r1; cases r2) (simp_all add: executeSelected_def Let_def)
qed


lemma trade_invalid:
  assumes "(fromAmount options \<noteq> None \<and> toAmount options \<noteq> None)
           \<or> (fromAmount options = None \<and> toAmount options = None)"
  shows "trade v st options
         = (Inl (Err Error ''Must provide either fromAmount OR toAmount, not both''), st)"
  using assms unfolding trade_def by (rule if_P)

lemma valid_amounts:
  assumes "(fromAmount options \<noteq> None) \<noteq> (toAmount options \<noteq> None)"
  shows "\<not> ((fromAmount options \<noteq> None \<and> toAmount options \<noteq> None)
           \<or> (fromAmount options = None \<and> toAmount options = None))"
  using assms by blast

lemma trade_init_failed:
  assumes valid: "(fromAmount options \<noteq> None) \<noteq> (toAmount options \<noteq> None)"
    and init: "(if \<not> initialized st then initialize v st else (None, st)) = (Some e, st1)"
  shows "trade v st options = (Inl e, st1)"
  unfolding trade_def Let_def if_not_P [OF valid_amounts [OF valid]] init by simp

lemma trade_routed:
  assumes valid: "(fromAmount options \<noteq> None) \<noteq> (toAmount options \<noteq> None)"
    and init: "(if \<not> initialized st then initialize v st else (None, st)) = (None, st1)"
    and mm: "getMarketMakerOption v st1 (fromToken options) (toToken options)
               (fromAmount options) (toAmount options) = (mmOpt, st2)"
    and cca: "(if truthy_string (toTokenSymbol options)
               then getCrossChainAccessOption v st2 (toTokenSymbol options)
                      (fromAmount options) (toAmount options)
               else (createPlatformOption cross_chain_access None (Some False)
                       (Some ''Symbol not provided''), st2)) = (ccaOpt, st3)"
    and strategy: "strategy = (case routingStrategy options of
                                 None \<Rightarrow> defaultRoutingStrategy st | Some s \<Rightarrow> s)"
    and st4: "st4 = record_call (RouterSelectPlatform ccaOpt mmOpt strategy
                                   (fromAmount options \<noteq> None)) st3"
  shows "trade v st options =
           (case selectPlatform ccaOpt mmOpt strategy (fromAmount options \<noteq> None) of
              Inl e \<Rightarrow> (Inl e, st4)
            | Inr selected \<Rightarrow> executeSelected v st4 options strategy selected mmOpt ccaOpt)"
  unfolding trade_def Let_def if_not_P [OF valid_amounts [OF valid]] init
  by (simp only: mm cca strategy st4 prod.case option.case)


lemma trade_calls_after_init:
  assumes valid: "(fromAmount options \<noteq> None) \<noteq> (toAmount options \<noteq> None)"
    and init: "(if \<not> initialized st then initialize v st else (None, st)) = (None, st1)"
  shows "\<exists>xs. calls (snd (trade v st options)) =
           calls st1 @ MarketMakerGetQuote (fromToken options) (toToken options)
                         (fromAmount options) (toAmount options) # xs"
proof -
  let ?mmc = "MarketMakerGetQuote (fromToken options) (toToken options)
                (fromAmount options) (toAmount options)"
  obtain mmOpt st2 where mm: "getMarketMakerOption v st1 (fromToken options) (toToken options)
      (fromAmount options) (toAmount options) = (mmOpt, st2)"
    by (cases "getMarketMakerOption v st1 (fromToken options) (toToken options)
      (fromAmount options) (toAmount options)")
  have c2: "calls st2 = calls st1 @ [?mmc]"
    using getMarketMakerOption_calls [of v st1 "fromToken options" "toToken options"
        "fromAmount options" "toAmount options"] mm by simp
  obtain ccaOpt st3 where cca: "(if truthy_string (toTokenSymbol options)
               then getCrossChainAccessOption v st2 (toTokenSymbol options)
                      (fromAmount options) (toAmount options)
               else (createPlatformOption cross_chain_access None (Some False)
                       (Some ''Symbol not provided''), st2)) = (ccaOpt, st3)"
    by (cases "(if truthy_string (toTokenSymbol options)
               then getCrossChainAccessOption v st2 (toTokenSymbol options)
                      (fromAmount options) (toAmount options)
               else (createPlatformOption cross_chain_access None (Some False)
                       (Some ''Symbol not provided''), st2))")
  obtain ys where c3: "calls st3 = calls st2 @ ys"
  proof (cases "truthy_string (toTokenSymbol options)")
    case True
    with cca getCrossChainAccessOption_calls [of v st2 "toTokenSymbol options"
        "fromAmount options" "toAmount options"] that show ?thesis by auto
  next
    case False
    with cca that show ?thesis by auto
  qed
  define strategy where "strategy =
    (case routingStrategy options of None \<Rightarrow> defaultRoutingStrategy st | Some s \<Rightarrow> s)"
  define st4 where "st4 = record_call (RouterSelectPlatform ccaOpt mmOpt strategy
                                   (fromAmount options \<noteq> None)) st3"
  have c4: "calls st4 = calls st1 @ ?mmc # (ys @ [RouterSelectPlatform ccaOpt mmOpt strategy
                                   (fromAmount options \<noteq> None)])"
    by (simp add: st4_def record_call_def c3 c2)
  note t = trade_routed [OF valid init mm cca strategy_def st4_def]
  show ?thesis
  proof (cases "selectPlatform ccaOpt mmOpt strategy (fromAmount options \<noteq> None)")
    case (Inl e)
    with t have "trade v st options = (Inl e, st4)" by simp
    with c4 show ?thesis by simp
  next
    case (Inr selected)
    with t have eq: "trade v st options
        = executeSelected v st4 options strategy selected mmOpt ccaOpt" by simp
    obtain zs where "calls (snd (executeSelected v st4 options strategy selected mmOpt ccaOpt))
        = calls st4 @ zs"
      using executeSelected_calls by blast
    with eq c4 show ?thesis by simp
  qed
qed

text \<open>
  Claim C4. When both \<open>fromAmount\<close> and \<open>toAmount\<close> are given, or neither is, \<open>trade\<close>
  throws the validation error and leaves the client as it was: no call has been made
  and \<open>initialized\<close> is unchanged. When exactly one is given the validation passes and
  \<open>trade\<close> goes on to its first call: \<open>initialize\<close> on the Market Maker client when the
  client is not initialized, the Market Maker quote otherwise.
\<close>

theorem trade_validates_amounts:
  "((fromAmount options \<noteq> None \<and> toAmount options \<noteq> None)
      \<or> (fromAmount options = None \<and> toAmount options = None)
    \<longrightarrow> trade v st options
        = (Inl (Err Error ''Must provide either fromAmount OR toAmount, not both''), st))
   \<and> ((fromAmount options \<noteq> None) \<noteq> (toAmount options \<noteq> None)
    \<longrightarrow> (\<exists>xs. calls (snd (trade v st options)) =
              calls st @ (if initialized st
                          then MarketMakerGetQuote (fromToken options) (toToken options)
                                 (fromAmount options) (toAmount options)
                          else MarketMakerInitialize) # xs))"
proof (intro conjI impI)
  assume "(fromAmount options \<noteq> None \<and> toAmount options \<noteq> None)
      \<or> (fromAmount options = None \<and> toAmount options = None)"
  then show "trade v st options
        = (Inl (Err Error ''Must provide either fromAmount OR toAmount, not both''), st)"
    by (rule trade_invalid)
next
  assume valid: "(fromAmount options \<noteq> None) \<noteq> (toAmount options \<noteq> None)"
  show "\<exists>xs. calls (snd (trade v st options)) =
              calls st @ (if initialized st
                          then MarketMakerGetQuote (fromToken options) (toToken options)
                                 (fromAmount options) (toAmount options)
                          else MarketMakerInitialize) # xs"
  proof (cases "initialized st")
    case True
    then have "(if \<not> initialized st then initialize v st else (None, st)) = (None, st)"
      by simp
    from trade_calls_after_init [OF valid this] True show ?thesis by simp
  next
    case False
    obtain r st1 where i: "initialize v st = (r, st1)" by (cases "initialize v st")
    obtain ys where c1: "calls st1 = calls st @ MarketMakerInitialize # ys"
      using initialize_calls [OF False, of v] i by auto
    from False i have init: "(if \<not> initialized st then initialize v st else (None, st))
        = (r, st1)" by simp
    show ?thesis
    proof (cases r)
      case None
      with init trade_calls_after_init [OF valid, of st v st1] c1 False
      show ?thesis by auto
    next
      case (Some e)
      with init trade_init_failed [OF valid, of st v e st1] c1 False
      show ?thesis by auto
    qed
  qed
qed

theorem trade_validates_amounts_witness:
  "trade venuesA client0 (optionsBuy\<lparr>toAmount := Some (Num 1)\<rparr>)
     = (Inl (Err Error ''Must provide either fromAmount OR toAmount, not both''), client0)
   \<and> trade venuesA client0 (optionsBuy\<lparr>fromAmount := None\<rparr>)
     = (Inl (Err Error ''Must provide either fromAmount OR toAmount, not both''), client0)
   \<and> (\<exists>xs. calls (snd (trade venuesA client0 optionsBuy)) = MarketMakerInitialize # xs)
   \<and> (\<exists>xs. calls (snd (trade venuesA client1 optionsSell))
        = MarketMakerGetQuote ''0xUSDC'' ''0xRWA'' None (Some (Num 10)) # xs)"
  using trade_validates_amounts [of "optionsBuy\<lparr>toAmount := Some (Num 1)\<rparr>" venuesA client0]
    trade_validates_amounts [of "optionsBuy\<lparr>fromAmount := None\<rparr>" venuesA client0]
    trade_validates_amounts [of optionsBuy venuesA client0]
    trade_validates_amounts [of optionsSell venuesA client1]
  by (simp add: optionsBuy_def optionsSell_def client0_def client1_def)


lemma executeSelected_failed:
  assumes primary: "executeOn v st4 (platform selected) options = (Inl err, st5)"
  shows "executeSelected v st4 options strategy selected mmOpt ccaOpt =
     (if (strategy = BEST_PRICE \<or> strategy = CROSS_CHAIN_ACCESS_FIRST
            \<or> strategy = MARKET_MAKER_FIRST)
         \<and> available (if platform selected = cross_chain_access then mmOpt else ccaOpt)
      then
        (case executeOn v st5
                (if platform selected = cross_chain_access
                 then market_maker else cross_chain_access) options of
           (Inr result, st6) \<Rightarrow> (Inr result, st6)
         | (Inl fallbackError, st6) \<Rightarrow>
             (Inl (Err AllPlatformsFailedException
                     (''Primary ('' @ platform_name (platform selected)
                      @ ''): '' @ String_of_error err
                      @ ''. Fallback (''
                      @ platform_name (if platform selected = cross_chain_access
                                       then market_maker else cross_chain_access)
                      @ ''): '' @ String_of_error fallbackError)), st6))
      else (Inl (Err TradingException (''Trade failed: '' @ String_of_error err)), st5))"
  unfolding executeSelected_def Let_def primary by simp

text \<open>
  Claim C5. Take a run of \<open>trade\<close> that passes validation and initialization, gets the
  options \<open>mmOpt\<close> and \<open>ccaOpt\<close>, has \<open>selected\<close> chosen by the router, and whose execution
  on the selected platform fails with \<open>err\<close>. Let \<open>alt\<close> be the other platform and
  \<open>altOpt\<close> its option. When the strategy is \<open>BEST_PRICE\<close>, \<open>CROSS_CHAIN_ACCESS_FIRST\<close> or
  \<open>MARKET_MAKER_FIRST\<close> and \<open>altOpt\<close> has its \<open>available\<close> flag set, \<open>trade\<close> makes exactly
  one more call, the execution on \<open>alt\<close>: its result is returned when it succeeds, and
  when it fails with \<open>fallbackError\<close> an \<open>AllPlatformsFailedException\<close> is thrown whose
  message holds the text of both errors. In every other case no further call is made
  and a \<open>TradingException\<close> wrapping \<open>err\<close> is thrown; the two venue-only strategies
  are always in this case.
\<close>

theorem trade_fallback:
  assumes valid: "(fromAmount options \<noteq> None) \<noteq> (toAmount options \<noteq> None)"
    and init: "(if \<not> initialized st then initialize v st else (None, st)) = (None, st_init)"
    and mm: "getMarketMakerOption v st_init (fromToken options) (toToken options)
               (fromAmount options) (toAmount options) = (mmOpt, st_mm)"
    and cca: "(if truthy_string (toTokenSymbol options)
               then getCrossChainAccessOption v st_mm (toTokenSymbol options)
                      (fromAmount options) (toAmount options)
               else (createPlatformOption cross_chain_access None (Some False)
                       (Some ''Symbol not provided''), st_mm)) = (ccaOpt, st_cca)"
    and strategy: "strategy = (case routingStrategy options of
                                 None \<Rightarrow> defaultRoutingStrategy st | Some s \<Rightarrow> s)"
    and st_routed: "st_routed = record_call (RouterSelectPlatform ccaOpt mmOpt strategy
                                   (fromAmount options \<noteq> None)) st_cca"
    and sel: "selectPlatform ccaOpt mmOpt strategy (fromAmount options \<noteq> None) = Inr selected"
    and primary: "executeOn v st_routed (platform selected) options = (Inl err, st_failed)"
    and alt: "alt = (if platform selected = cross_chain_access
                     then market_maker else cross_chain_access)"
    and altOpt: "altOpt = (if platform selected = cross_chain_access then mmOpt else ccaOpt)"
    and allowed: "allowed = (strategy = BEST_PRICE \<or> strategy = CROSS_CHAIN_ACCESS_FIRST
                             \<or> strategy = MARKET_MAKER_FIRST)"
  shows "(allowed \<and> available altOpt \<longrightarrow>
            snd (trade v st options) = snd (executeOn v st_failed alt options)
            \<and> calls (snd (trade v st options)) =
                calls st_failed @
                  [if alt = cross_chain_access then
                     (if fromAmount options \<noteq> None
                      then CrossChainAccessBuy (toToken options) (toTokenSymbol options)
                             (fromAmount options) (userEmail options)
                      else CrossChainAccessSell (toToken options) (toTokenSymbol options)
                             (toAmount options) (userEmail options))
                   else MarketMakerTrade (fromToken options) (toToken options)
                          (fromAmount options) (toAmount options)]
            \<and> (\<forall>result. fst (executeOn v st_failed alt options) = Inr result
                  \<longrightarrow> fst (trade v st options) = Inr result)
            \<and> (\<forall>fallbackError. fst (executeOn v st_failed alt options) = Inl fallbackError
                  \<longrightarrow> fst (trade v st options) =
                        Inl (Err AllPlatformsFailedException
                               (''Primary ('' @ platform_name (platform selected)
                                @ ''): '' @ String_of_error err
                                @ ''. Fallback ('' @ platform_name alt
                                @ ''): '' @ String_of_error fallbackError))))
         \<and> (\<not> (allowed \<and> available altOpt) \<longrightarrow>
              trade v st options =
                (Inl (Err TradingException (''Trade failed: '' @ String_of_error err)), st_failed))
         \<and> (strategy = CROSS_CHAIN_ACCESS_ONLY \<or> strategy = MARKET_MAKER_ONLY \<longrightarrow>
              trade v st options =
                (Inl (Err TradingException (''Trade failed: '' @ String_of_error err)), st_failed))"
proof -
  have t: "trade v st options = executeSelected v st_routed options strategy selected mmOpt ccaOpt"
    using trade_routed [OF valid init mm cca strategy st_routed] sel by simp
  note f = executeSelected_failed [OF primary, of strategy mmOpt ccaOpt]
  have no: "trade v st options =
      (Inl (Err TradingException (''Trade failed: '' @ String_of_error err)), st_failed)"
    if "\<not> (allowed \<and> available altOpt)"
    using that t f unfolding allowed altOpt by auto
  have only: "\<not> allowed" if "strategy = CROSS_CHAIN_ACCESS_ONLY \<or> strategy = MARKET_MAKER_ONLY"
    using that unfolding allowed by (auto simp: strategy_defs)
  have yes: "trade v st options =
      (case executeOn v st_failed alt options of
           (Inr result, st_fb) \<Rightarrow> (Inr result, st_fb)
         | (Inl fallbackError, st_fb) \<Rightarrow>
             (Inl (Err AllPlatformsFailedException
                     (''Primary ('' @ platform_name (platform selected)
                      @ ''): '' @ String_of_error err
                      @ ''. Fallback ('' @ platform_name alt
                      @ ''): '' @ String_of_error fallbackError)), st_fb))"
    if "allowed \<and> available altOpt"
    using that t f unfolding allowed altOpt alt by auto
  obtain r2 st_fb where e2: "executeOn v st_failed alt options = (r2, st_fb)"
    by (cases "executeOn v st_failed alt options")
  have c: "calls st_fb =
      calls st_failed @
        [if alt = cross_chain_access then
           (if fromAmount options \<noteq> None
            then CrossChainAccessBuy (toToken options) (toTokenSymbol options)
                   (fromAmount options) (userEmail options)
            else CrossChainAccessSell (toToken options) (toTokenSymbol options)
                   (toAmount options) (userEmail options))
         else MarketMakerTrade (fromToken options) (toToken options)
                (fromAmount options) (toAmount options)]"
    using executeOn_call [of v st_failed alt options] e2 by simp
  have part1: "snd (trade v st options) = snd (executeOn v st_failed alt options)
            \<and> calls (snd (trade v st options)) =
                calls st_failed @
                  [if alt = cross_chain_access then
                     (if fromAmount options \<noteq> None
                      then CrossChainAccessBuy (toToken options) (toTokenSymbol options)
                             (fromAmount options) (userEmail options)
                      else CrossChainAccessSell (toToken options) (toTokenSymbol options)
                             (toAmount options) (userEmail options))
                   else MarketMakerTrade (fromToken options) (toToken options)
                          (fromAmount options) (toAmount options)]
            \<and> (\<forall>result. fst (executeOn v st_failed alt options) = Inr result
                  \<longrightarrow> fst (trade v st options) = Inr result)
            \<and> (\<forall>fallbackError. fst (executeOn v st_failed alt options) = Inl fallbackError
                  \<longrightarrow> fst (trade v st options) =
                        Inl (Err AllPlatformsFailedException
                               (''Primary ('' @ platform_name (platform selected)
                                @ ''): '' @ String_of_error err
                                @ ''. Fallback ('' @ platform_name alt
                                @ ''): '' @ String_of_error fallbackError)))"
    if "allowed \<and> available altOpt"
    using yes [OF that] e2 c by (cases r2) simp_all
  show ?thesis
    using part1 no only by blast
qed


theorem trade_fallback_witness:
  "trade venuesFail client1 optionsBuy =
     (Inl (Err AllPlatformsFailedException
        ''Primary (cross_chain_access): OrderFailedException: Order creation failed: boom. Fallback (market_maker): MarketMakerWeb3Exception: Transaction reverted''),
      client1\<lparr>calls :=
        [MarketMakerGetQuote ''0xUSDC'' ''0xRWA'' (Some (Num 100)) None,
         CrossChainAccessGetQuote ''AAPL'',
         RouterSelectPlatform optionA optionB BEST_PRICE True,
         CrossChainAccessBuy ''0xRWA'' (Some ''AAPL'') (Some (Num 100)) ''user@example.com'',
         MarketMakerTrade ''0xUSDC'' ''0xRWA'' (Some (Num 100)) None]\<rparr>)"
proof -
  let ?c1 = "MarketMakerGetQuote ''0xUSDC'' ''0xRWA'' (Some (Num 100)) None"
  let ?c2 = "CrossChainAccessGetQuote ''AAPL''"
  let ?c3 = "RouterSelectPlatform optionA optionB BEST_PRICE True"
  let ?c4 = "CrossChainAccessBuy ''0xRWA'' (Some ''AAPL'') (Some (Num 100)) ''user@example.com''"
  let ?c5 = "MarketMakerTrade ''0xUSDC'' ''0xRWA'' (Some (Num 100)) None"
  have valid: "(fromAmount optionsBuy \<noteq> None) \<noteq> (toAmount optionsBuy \<noteq> None)"
    by (simp add: optionsBuy_def)
  have init: "(if \<not> initialized client1 then initialize venuesFail client1 else (None, client1))
      = (None, client1)"
    by (simp add: client1_def)
  have mm: "getMarketMakerOption venuesFail client1 (fromToken optionsBuy) (toToken optionsBuy)
      (fromAmount optionsBuy) (toAmount optionsBuy) = (optionB, client1\<lparr>calls := [?c1]\<rparr>)"
    by (simp add: getMarketMakerOption_def record_call_def example_defs)
  have cca: "(if truthy_string (toTokenSymbol optionsBuy)
       then getCrossChainAccessOption venuesFail (client1\<lparr>calls := [?c1]\<rparr>)
              (toTokenSymbol optionsBuy) (fromAmount optionsBuy) (toAmount optionsBuy)
       else (createPlatformOption cross_chain_access None (Some False)
               (Some ''Symbol not provided''), client1\<lparr>calls := [?c1]\<rparr>))
      = (optionA, client1\<lparr>calls := [?c1, ?c2]\<rparr>)"
    by (simp add: getCrossChainAccessOption_def truthy_string_def record_call_def example_defs)
  have strategy: "BEST_PRICE = (case routingStrategy optionsBuy of
      None \<Rightarrow> defaultRoutingStrategy client1 | Some s \<Rightarrow> s)"
    by (simp add: optionsBuy_def client1_def)
  have routed: "client1\<lparr>calls := [?c1, ?c2, ?c3]\<rparr> =
      record_call (RouterSelectPlatform optionA optionB BEST_PRICE (fromAmount optionsBuy \<noteq> None))
        (client1\<lparr>calls := [?c1, ?c2]\<rparr>)"
    by (simp add: record_call_def optionsBuy_def)
  have sel: "selectPlatform optionA optionB BEST_PRICE (fromAmount optionsBuy \<noteq> None) = Inr optionA"
    by (simp add: selectPlatform_def Let_def strategy_defs getEffectiveRate_def example_defs)
  have primary: "executeOn venuesFail (client1\<lparr>calls := [?c1, ?c2, ?c3]\<rparr>) (platform optionA)
      optionsBuy = (Inl (Err OrderFailedException ''Order creation failed: boom''),
                    client1\<lparr>calls := [?c1, ?c2, ?c3, ?c4]\<rparr>)"
    by (simp add: executeOn_def executeCrossChainAccessTrade_def record_call_def example_defs)
  have fb: "executeOn venuesFail (client1\<lparr>calls := [?c1, ?c2, ?c3, ?c4]\<rparr>) market_maker
      optionsBuy = (Inl (Err MarketMakerWeb3Exception ''Transaction reverted''),
                    client1\<lparr>calls := [?c1, ?c2, ?c3, ?c4, ?c5]\<rparr>)"
    by (simp add: executeOn_def executeMarketMakerTrade_def record_call_def example_defs)
  have alt: "market_maker = (if platform optionA = cross_chain_access
                     then market_maker else cross_chain_access)"
    by (simp add: example_defs)
  have altOpt: "optionB = (if platform optionA = cross_chain_access then optionB else optionA)"
    by (simp add: example_defs)
  have allowed: "True = (BEST_PRICE = BEST_PRICE \<or> BEST_PRICE = CROSS_CHAIN_ACCESS_FIRST
                             \<or> BEST_PRICE = MARKET_MAKER_FIRST)"
    by simp
  have av: "available optionB" by (simp add: example_defs)
  note t = trade_fallback [OF valid init mm cca strategy routed sel primary alt altOpt allowed]
  from t av fb have s: "snd (trade venuesFail client1 optionsBuy)
      = client1\<lparr>calls := [?c1, ?c2, ?c3, ?c4, ?c5]\<rparr>" by simp
  from t av fb have f: "fst (trade venuesFail client1 optionsBuy) =
      Inl (Err AllPlatformsFailedException
             (''Primary ('' @ platform_name (platform optionA)
              @ ''): '' @ String_of_error (Err OrderFailedException ''Order creation failed: boom'')
              @ ''. Fallback ('' @ platform_name market_maker
              @ ''): '' @ String_of_error (Err MarketMakerWeb3Exception ''Transaction reverted'')))"
    by simp
  have "fst (trade venuesFail client1 optionsBuy) =
      Inl (Err AllPlatformsFailedException
        ''Primary (cross_chain_access): OrderFailedException: Order creation failed: boom. Fallback (market_maker): MarketMakerWeb3Exception: Transaction reverted'')"
    unfolding f by (simp add: platform_name_def String_of_error_def example_defs)
  with s show ?thesis by (simp add: prod_eq_iff)
qed

text \<open>
  Claim C8. Take a run of \<open>trade\<close> that passes validation and initialization. The
  Market Maker quote is requested first; whatever it answers, the Cross-Chain Access
  option is obtained next: by a quote request when a non-empty symbol is given, and as
  \<open>{available: false, error: "Symbol not provided"}\<close> without any request otherwise. A
  Market Maker quote that fails with \<open>e\<close> becomes the option
  \<open>{available: false, error: String(e)}\<close>; a Cross-Chain Access quote that fails becomes
  \<open>{available: false, error}\<close> with \<open>Market closed\<close> for a \<open>MarketClosedException\<close> and
  \<open>String(e)\<close> otherwise. The router is then called on this pair, and \<open>trade\<close> continues
  from its answer.
\<close>

theorem trade_isolates_quote_failures:
  assumes valid: "(fromAmount options \<noteq> None) \<noteq> (toAmount options \<noteq> None)"
    and init: "(if \<not> initialized st then initialize v st else (None, st)) = (None, st_init)"
    and strategy: "strategy = (case routingStrategy options of
                                 None \<Rightarrow> defaultRoutingStrategy st | Some s \<Rightarrow> s)"
    and mmOpt: "mmOpt =
       (case marketMaker_getQuote v (fromToken options) (toToken options)
               (fromAmount options) (toAmount options) of
          Inr q \<Rightarrow> \<lparr>platform = market_maker, quote = Some q, available = True, error = None\<rparr>
        | Inl e \<Rightarrow> \<lparr>platform = market_maker, quote = None, available = False,
                     error = Some (String_of_error e)\<rparr>)"
    and ccaOpt: "ccaOpt =
       (case toTokenSymbol options of
          None \<Rightarrow> \<lparr>platform = cross_chain_access, quote = None, available = False,
                     error = Some ''Symbol not provided''\<rparr>
        | Some symbol \<Rightarrow>
            if symbol = [] then
              \<lparr>platform = cross_chain_access, quote = None, available = False,
                 error = Some ''Symbol not provided''\<rparr>
            else
              (case crossChainAccess_getQuote v symbol of
                 Inr q \<Rightarrow> \<lparr>platform = cross_chain_access, quote = Some q, available = True,
                            error = None\<rparr>
               | Inl e \<Rightarrow> \<lparr>platform = cross_chain_access, quote = None, available = False,
                            error = Some (if instanceof e MarketClosedException
                                          then ''Market closed'' else String_of_error e)\<rparr>))"
    and ccaCalls: "ccaCalls =
       (case toTokenSymbol options of
          None \<Rightarrow> []
        | Some symbol \<Rightarrow> if symbol = [] then [] else [CrossChainAccessGetQuote symbol])"
    and routed: "st_routed = st_init\<lparr>calls := calls st_init @
       [MarketMakerGetQuote (fromToken options) (toToken options)
          (fromAmount options) (toAmount options)]
       @ ccaCalls
       @ [RouterSelectPlatform ccaOpt mmOpt strategy (fromAmount options \<noteq> None)]\<rparr>"
  shows "trade v st options =
           (case selectPlatform ccaOpt mmOpt strategy (fromAmount options \<noteq> None) of
              Inl e \<Rightarrow> (Inl e, st_routed)
            | Inr selected \<Rightarrow>
                executeSelected v st_routed options strategy selected mmOpt ccaOpt)"
proof -
  let ?c1 = "MarketMakerGetQuote (fromToken options) (toToken options)
          (fromAmount options) (toAmount options)"
  let ?st2 = "record_call ?c1 st_init"
  let ?st3 = "st_init\<lparr>calls := calls st_init @ [?c1] @ ccaCalls\<rparr>"
  have mm: "getMarketMakerOption v st_init (fromToken options) (toToken options)
      (fromAmount options) (toAmount options) = (mmOpt, ?st2)"
    unfolding mmOpt getMarketMakerOption_def Let_def createPlatformOption_def
    by (simp split: sum.split)
  have cca: "(if truthy_string (toTokenSymbol options)
       then getCrossChainAccessOption v ?st2 (toTokenSymbol options)
              (fromAmount options) (toAmount options)
       else (createPlatformOption cross_chain_access None (Some False)
               (Some ''Symbol not provided''), ?st2))
      = (ccaOpt, ?st3)"
  proof (cases "toTokenSymbol options")
    case None
    then show ?thesis
      unfolding ccaOpt ccaCalls
      by (simp add: truthy_string_def createPlatformOption_def record_call_def)
  next
    case (Some symbol)
    show ?thesis
    proof (cases "symbol = []")
      case True
      with Some show ?thesis
        unfolding ccaOpt ccaCalls
        by (simp add: truthy_string_def createPlatformOption_def record_call_def)
    next
      case False
      with Some show ?thesis
        unfolding ccaOpt ccaCalls getCrossChainAccessOption_def Let_def
        by (simp add: truthy_string_def createPlatformOption_def record_call_def
            split: sum.split)
    qed
  qed
  have r: "st_routed = record_call (RouterSelectPlatform ccaOpt mmOpt strategy
                                   (fromAmount options \<noteq> None)) ?st3"
    unfolding routed by (simp add: record_call_def)
  show ?thesis
    by (rule trade_routed [OF valid init mm cca strategy r])
qed

theorem trade_isolates_quote_failures_witness:
  "trade venuesDown client1 optionsBuy =
     (Inl (Err TradingException
             ''Trade failed: OrderFailedException: Order creation failed: boom''),
      client1\<lparr>calls :=
        [MarketMakerGetQuote ''0xUSDC'' ''0xRWA'' (Some (Num 100)) None,
         CrossChainAccessGetQuote ''AAPL'',
         RouterSelectPlatform optionA
           \<lparr>platform = market_maker, quote = None, available = False,
              error = Some ''RPQServiceException: Failed to get quote''\<rparr>
           BEST_PRICE True,
         CrossChainAccessBuy ''0xRWA'' (Some ''AAPL'') (Some (Num 100)) ''user@example.com'']\<rparr>)
   \<and> trade venuesClosed client1 optionsBuy =
     (Inr resultB,
      client1\<lparr>calls :=
        [MarketMakerGetQuote ''0xUSDC'' ''0xRWA'' (Some (Num 100)) None,
         CrossChainAccessGetQuote ''AAPL'',
         RouterSelectPlatform
           \<lparr>platform = cross_chain_access, quote = None, available = False,
              error = Some ''Market closed''\<rparr>
           optionB BEST_PRICE True,
         MarketMakerTrade ''0xUSDC'' ''0xRWA'' (Some (Num 100)) None]\<rparr>)
   \<and> trade venuesDown client1 (optionsBuy\<lparr>toTokenSymbol := None\<rparr>) =
     (Inl (Err NoLiquidityException
             ''No platforms available. Cross-Chain Access: Symbol not provided; Market Maker: RPQServiceException: Failed to get quote''),
      client1\<lparr>calls :=
        [MarketMakerGetQuote ''0xUSDC'' ''0xRWA'' (Some (Num 100)) None,
         RouterSelectPlatform
           \<lparr>platform = cross_chain_access, quote = None, available = False,
              error = Some ''Symbol not provided''\<rparr>
           \<lparr>platform = market_maker, quote = None, available = False,
              error = Some ''RPQServiceException: Failed to get quote''\<rparr>
           BEST_PRICE True]\<rparr>)"
proof -
  have valid: "(fromAmount optionsBuy \<noteq> None) \<noteq> (toAmount optionsBuy \<noteq> None)"
    by (simp add: optionsBuy_def)
  have validN: "(fromAmount (optionsBuy\<lparr>toTokenSymbol := None\<rparr>) \<noteq> None)
      \<noteq> (toAmount (optionsBuy\<lparr>toTokenSymbol := None\<rparr>) \<noteq> None)"
    by (simp add: optionsBuy_def)
  have init: "(if \<not> initialized client1 then initialize v client1 else (None, client1))
      = (None, client1)" for v
    by (simp add: client1_def)
  have strategy: "BEST_PRICE = (case routingStrategy optionsBuy of
      None \<Rightarrow> defaultRoutingStrategy client1 | Some s \<Rightarrow> s)"
    by (simp add: optionsBuy_def client1_def)
  have strategyN: "BEST_PRICE = (case routingStrategy (optionsBuy\<lparr>toTokenSymbol := None\<rparr>) of
      None \<Rightarrow> defaultRoutingStrategy client1 | Some s \<Rightarrow> s)"
    by (simp add: optionsBuy_def client1_def)
  note down = trade_isolates_quote_failures
    [OF valid init strategy refl refl refl refl, of venuesDown]
  note closed = trade_isolates_quote_failures
    [OF valid init strategy refl refl refl refl, of venuesClosed]
  note nosym = trade_isolates_quote_failures
    [OF validN init strategyN refl refl refl refl, of venuesDown]
  have 1: "trade venuesDown client1 optionsBuy =
     (Inl (Err TradingException
             ''Trade failed: OrderFailedException: Order creation failed: boom''),
      client1\<lparr>calls :=
        [MarketMakerGetQuote ''0xUSDC'' ''0xRWA'' (Some (Num 100)) None,
         CrossChainAccessGetQuote ''AAPL'',
         RouterSelectPlatform optionA
           \<lparr>platform = market_maker, quote = None, available = False,
              error = Some ''RPQServiceException: Failed to get quote''\<rparr>
           BEST_PRICE True,
         CrossChainAccessBuy ''0xRWA'' (Some ''AAPL'') (Some (Num 100)) ''user@example.com'']\<rparr>)"
    unfolding down
    by (simp add: client_defs example_defs selectPlatform_def strategy_defs Let_def
        getEffectiveRate_def)
  have 2: "trade venuesClosed client1 optionsBuy =
     (Inr resultB,
      client1\<lparr>calls :=
        [MarketMakerGetQuote ''0xUSDC'' ''0xRWA'' (Some (Num 100)) None,
         CrossChainAccessGetQuote ''AAPL'',
         RouterSelectPlatform
           \<lparr>platform = cross_chain_access, quote = None, available = False,
              error = Some ''Market closed''\<rparr>
           optionB BEST_PRICE True,
         MarketMakerTrade ''0xUSDC'' ''0xRWA'' (Some (Num 100)) None]\<rparr>)"
    unfolding closed
    by (simp add: client_defs example_defs selectPlatform_def strategy_defs Let_def
        getEffectiveRate_def instanceof_def)
  have 3: "trade venuesDown client1 (optionsBuy\<lparr>toTokenSymbol := None\<rparr>) =
     (Inl (Err NoLiquidityException
             ''No platforms available. Cross-Chain Access: Symbol not provided; Market Maker: RPQServiceException: Failed to get quote''),
      client1\<lparr>calls :=
        [MarketMakerGetQuote ''0xUSDC'' ''0xRWA'' (Some (Num 100)) None,
         RouterSelectPlatform
           \<lparr>platform = cross_chain_access, quote = None, available = False,
              error = Some ''Symbol not provided''\<rparr>
           \<lparr>platform = market_maker, quote = None, available = False,
              error = Some ''RPQServiceException: Failed to get quote''\<rparr>
           BEST_PRICE True]\<rparr>)"
    unfolding nosym
    by (simp add: client_defs example_defs selectPlatform_def strategy_defs Let_def
        getEffectiveRate_def show_optional_def)
  from 1 2 3 show ?thesis by blast
qed

text \<open>
  Claim C10. In a run of \<open>trade\<close> that passes validation and initialization, the router is
  called with \<open>isBuy\<close> equal to "\<open>fromAmount\<close> is given", whatever the tokens are.
  Under \<open>BEST_PRICE\<close> with both options available, a request that gives only \<open>toAmount\<close>
  therefore executes on Cross-Chain Access exactly when its rate is \<open>>=\<close> the Market
  Maker rate (the sell-side comparison), and a request that gives \<open>fromAmount\<close> uses
  \<open><=\<close>.
\<close>

theorem trade_direction:
  assumes valid: "(fromAmount options \<noteq> None) \<noteq> (toAmount options \<noteq> None)"
    and init: "(if \<not> initialized st then initialize v st else (None, st)) = (None, st_init)"
    and mm: "getMarketMakerOption v st_init (fromToken options) (toToken options)
               (fromAmount options) (toAmount options) = (mmOpt, st_mm)"
    and cca: "(if truthy_string (toTokenSymbol options)
               then getCrossChainAccessOption v st_mm (toTokenSymbol options)
                      (fromAmount options) (toAmount options)
               else (createPlatformOption cross_chain_access None (Some False)
                       (Some ''Symbol not provided''), st_mm)) = (ccaOpt, st_cca)"
    and strategy: "strategy = (case routingStrategy options of
                                 None \<Rightarrow> defaultRoutingStrategy st | Some s \<Rightarrow> s)"
    and routed: "st_routed = record_call (RouterSelectPlatform ccaOpt mmOpt strategy
                                   (fromAmount options \<noteq> None)) st_cca"
  shows "(\<exists>xs. calls (snd (trade v st options)) =
            calls st_cca @ RouterSelectPlatform ccaOpt mmOpt strategy
                             (fromAmount options \<noteq> None) # xs)
       \<and> (strategy = BEST_PRICE \<and> available ccaOpt \<and> quote ccaOpt \<noteq> None
            \<and> available mmOpt \<and> quote mmOpt \<noteq> None \<longrightarrow>
            (fromAmount options = None \<longrightarrow>
               trade v st options =
                 executeSelected v st_routed options strategy
                   (if jge (getEffectiveRate ccaOpt) (getEffectiveRate mmOpt)
                    then ccaOpt else mmOpt) mmOpt ccaOpt)
            \<and> (fromAmount options \<noteq> None \<longrightarrow>
               trade v st options =
                 executeSelected v st_routed options strategy
                   (if jle (getEffectiveRate ccaOpt) (getEffectiveRate mmOpt)
                    then ccaOpt else mmOpt) mmOpt ccaOpt))"
proof -
  note t = trade_routed [OF valid init mm cca strategy routed]
  have c: "calls st_routed = calls st_cca @ [RouterSelectPlatform ccaOpt mmOpt strategy
                             (fromAmount options \<noteq> None)]"
    unfolding routed by (simp add: record_call_def)
  have first: "\<exists>xs. calls (snd (trade v st options)) =
            calls st_cca @ RouterSelectPlatform ccaOpt mmOpt strategy
                             (fromAmount options \<noteq> None) # xs"
  proof (cases "selectPlatform ccaOpt mmOpt strategy (fromAmount options \<noteq> None)")
    case (Inl e)
    with t have "trade v st options = (Inl e, st_routed)" by simp
    with c show ?thesis by simp
  next
    case (Inr selected)
    with t have eq: "trade v st options
        = executeSelected v st_routed options strategy selected mmOpt ccaOpt" by simp
    obtain zs where "calls (snd (executeSelected v st_routed options strategy selected
        mmOpt ccaOpt)) = calls st_routed @ zs"
      using executeSelected_calls by blast
    with eq c show ?thesis by simp
  qed
  have second: "trade v st options =
                 executeSelected v st_routed options strategy
                   (if jge (getEffectiveRate ccaOpt) (getEffectiveRate mmOpt)
                    then ccaOpt else mmOpt) mmOpt ccaOpt"
    if "strategy = BEST_PRICE" "available ccaOpt" "quote ccaOpt \<noteq> None"
      "available mmOpt" "quote mmOpt \<noteq> None" "fromAmount options = None"
    using t that by (simp add: sp_both strategy_defs)
  have third: "trade v st options =
                 executeSelected v st_routed options strategy
                   (if jle (getEffectiveRate ccaOpt) (getEffectiveRate mmOpt)
                    then ccaOpt else mmOpt) mmOpt ccaOpt"
    if "strategy = BEST_PRICE" "available ccaOpt" "quote ccaOpt \<noteq> None"
      "available mmOpt" "quote mmOpt \<noteq> None" "fromAmount options \<noteq> None"
    using t that by (simp add: sp_both strategy_defs)
  show ?thesis
    using first second third by blast
qed


theorem trade_direction_witness:
  "trade venuesA client1 optionsSell =
     (Inr resultB,
      client1\<lparr>calls :=
        [MarketMakerGetQuote ''0xUSDC'' ''0xRWA'' None (Some (Num 10)),
         CrossChainAccessGetQuote ''AAPL'',
         RouterSelectPlatform optionA optionB BEST_PRICE False,
         MarketMakerTrade ''0xUSDC'' ''0xRWA'' None (Some (Num 10))]\<rparr>)
   \<and> getEffectiveRate optionA = Num (1/2) \<and> getEffectiveRate optionB = Num (3/4)"
proof -
  let ?c1 = "MarketMakerGetQuote ''0xUSDC'' ''0xRWA'' None (Some (Num 10))"
  let ?c2 = "CrossChainAccessGetQuote ''AAPL''"
  have valid: "(fromAmount optionsSell \<noteq> None) \<noteq> (toAmount optionsSell \<noteq> None)"
    by (simp add: optionsSell_def optionsBuy_def)
  have init: "(if \<not> initialized client1 then initialize venuesA client1 else (None, client1))
      = (None, client1)"
    by (simp add: client1_def)
  have mm: "getMarketMakerOption venuesA client1 (fromToken optionsSell) (toToken optionsSell)
      (fromAmount optionsSell) (toAmount optionsSell) = (optionB, client1\<lparr>calls := [?c1]\<rparr>)"
    by (simp add: getMarketMakerOption_def record_call_def example_defs)
  have cca: "(if truthy_string (toTokenSymbol optionsSell)
       then getCrossChainAccessOption venuesA (client1\<lparr>calls := [?c1]\<rparr>)
              (toTokenSymbol optionsSell) (fromAmount optionsSell) (toAmount optionsSell)
       else (createPlatformOption cross_chain_access None (Some False)
               (Some ''Symbol not provided''), client1\<lparr>calls := [?c1]\<rparr>))
      = (optionA, client1\<lparr>calls := [?c1, ?c2]\<rparr>)"
    by (simp add: getCrossChainAccessOption_def truthy_string_def record_call_def example_defs)
  have strategy: "BEST_PRICE = (case routingStrategy optionsSell of
      None \<Rightarrow> defaultRoutingStrategy client1 | Some s \<Rightarrow> s)"
    by (simp add: optionsSell_def optionsBuy_def client1_def)
  have ra: "getEffectiveRate optionA = Num (1/2)"
    by (simp add: getEffectiveRate_def example_defs)
  have rb: "getEffectiveRate optionB = Num (3/4)"
    by (simp add: getEffectiveRate_def example_defs)
  have av: "BEST_PRICE = BEST_PRICE \<and> available optionA \<and> quote optionA \<noteq> None
            \<and> available optionB \<and> quote optionB \<noteq> None"
    by (simp add: example_defs)
  have none: "fromAmount optionsSell = None"
    by (simp add: optionsSell_def optionsBuy_def)
  from trade_direction [OF valid init mm cca strategy refl] av none
  have "trade venuesA client1 optionsSell =
      executeSelected venuesA
        (record_call (RouterSelectPlatform optionA optionB BEST_PRICE
                        (fromAmount optionsSell \<noteq> None)) (client1\<lparr>calls := [?c1, ?c2]\<rparr>))
        optionsSell BEST_PRICE
        (if jge (getEffectiveRate optionA) (getEffectiveRate optionB) then optionA else optionB)
        optionB optionA"
    by blast
  then have "trade venuesA client1 optionsSell =
     (Inr resultB,
      client1\<lparr>calls :=
        [?c1, ?c2, RouterSelectPlatform optionA optionB BEST_PRICE False,
         MarketMakerTrade ''0xUSDC'' ''0xRWA'' None (Some (Num 10))]\<rparr>)"
    unfolding ra rb
    by (simp add: jge_def executeSelected_def executeOn_def executeMarketMakerTrade_def
        record_call_def example_defs)
  with ra rb show ?thesis by simp
qed
section \<open>Facts about the Cross-Chain Access client\<close>

lemmas cca_example_defs = quote2_def statusOk_def fundsOk_def worldA_def ccaClient0_def
  ccaClient1_def order2_def plan2_def ccaClientReady_def

lemmas cca_defs = authenticate_def loadTopupAddress_def cca_initialize_def getAccountStatus_def
  getAccountFunds_def createOrder_def checkTradingAvailability_def cca_getQuote_def
  RWA_DECIMALS_def USDC_DECIMALS_def calculateAmounts_def prepareTrade_def settleTrade_def
  executeTrade_def buy_def sell_def getPriceForSide_def isTradingAllowed_def
  hasSufficientFunds_def record_call_def truthy_string_def toLowerCase_def toUpperCase_def
  instanceof_def String_of_error_def jge_def

lemma authenticate_keeps:
  "authenticate w st = (r, st') \<Longrightarrow>
     (\<exists>xs. calls st' = calls st @ xs \<and> filter is_transfer xs = [])
     \<and> topupAddress st' = topupAddress st \<and> initialized st' = initialized st"
  by (auto simp: authenticate_def record_call_def Let_def split: sum.splits)

lemma loadTopupAddress_keeps:
  "loadTopupAddress w st = (r, st') \<Longrightarrow>
     (\<exists>xs. calls st' = calls st @ xs \<and> filter is_transfer xs = [])
     \<and> authToken st' = authToken st \<and> initialized st' = initialized st"
  by (auto simp: loadTopupAddress_def record_call_def Let_def split: sum.splits if_splits)

lemma cca_initialize_keeps:
  "cca_initialize w st = (r, st') \<Longrightarrow>
     \<exists>xs. calls st' = calls st @ xs \<and> filter is_transfer xs = []"
  by (auto simp: cca_initialize_def split: if_splits prod.splits option.splits
      dest!: authenticate_keeps loadTopupAddress_keeps)

lemma getAccountStatus_keeps:
  "getAccountStatus w st = (r, st') \<Longrightarrow>
     (\<exists>xs. calls st' = calls st @ xs \<and> filter is_transfer xs = [])
     \<and> authToken st' = authToken st
     \<and> (\<forall>s. r = Inr s \<longrightarrow> truthy_string (authToken st'))"
  by (auto simp: getAccountStatus_def record_call_def split: if_splits)

lemma getAccountFunds_keeps:
  "getAccountFunds w st = (r, st') \<Longrightarrow>
     (\<exists>xs. calls st' = calls st @ xs \<and> filter is_transfer xs = [])
     \<and> authToken st' = authToken st"
  by (auto simp: getAccountFunds_def record_call_def split: if_splits)

lemma checkTradingAvailability_keeps:
  "checkTradingAvailability w st = (r, st') \<Longrightarrow>
     (\<exists>xs. calls st' = calls st @ xs \<and> filter is_transfer xs = [])
     \<and> (\<forall>msg. r = Inr (True, msg) \<longrightarrow> truthy_string (authToken st'))"
  by (auto simp: checkTradingAvailability_def Let_def
      split: if_splits prod.splits option.splits sum.splits
      dest!: cca_initialize_keeps getAccountStatus_keeps)

lemma prepareTrade_keeps:
  "prepareTrade w st rwaTokenAddress rwaSymbol rwaAmount usdcAmount orderSide = (r, st') \<Longrightarrow>
     (\<exists>xs. calls st' = calls st @ xs \<and> filter is_transfer xs = [])
     \<and> (\<forall>plan. r = Inr plan \<longrightarrow> truthy_string (authToken st'))"
  by (auto simp: prepareTrade_def Let_def record_call_def
      split: if_splits prod.splits option.splits sum.splits
      dest!: cca_initialize_keeps checkTradingAvailability_keeps getAccountFunds_keeps
        loadTopupAddress_keeps)

lemma round_half_up_numeral [simp]: "round_half_up d (numeral n) = numeral n"
proof -
  have "(numeral n :: rat) * 10 ^ d + 1 / 2 = of_int (numeral n * 10 ^ d) + 1 / 2"
    by simp
  moreover have "\<lfloor>of_int (numeral n * 10 ^ d) + (1 / 2 :: rat)\<rfloor> = numeral n * 10 ^ d"
    by (simp add: floor_eq_iff del: of_int_mult of_int_numeral of_int_power)
  ultimately show ?thesis
    by (simp add: round_half_up_def)
qed

lemma toFixed_small_numeral:
  "(numeral n :: rat) < 10 ^ 21 \<Longrightarrow> toFixed d (Num (numeral n)) = Num (numeral n)"
  by (simp add: toFixed_def)


text \<open>
  Claim C1, at an input where the code departs from it. The service quotes an ask price
  of \<open>2\<close> for \<open>AAPL\<close>. \<open>CrossChainAccessClient.getQuote\<close> returns a quote with
  \<open>sellAmount = 1\<close>, \<open>buyAmount = 1/2\<close> and \<open>rate = 2\<close>: the rate is the ask price, while
  \<open>buyAmount / sellAmount\<close> is \<open>1/2\<close>.
\<close>

theorem getQuote_rate_is_ask_price:
  "\<exists>q. fst (cca_getQuote worldA ccaClient1 ''AAPL'') = Inr q
       \<and> sellAmount q = Num 1 \<and> buyAmount q = Num (1/2) \<and> rate q = Num 2
       \<and> jdiv (buyAmount q) (sellAmount q) = Num (1/2)
       \<and> rate q \<noteq> jdiv (buyAmount q) (sellAmount q)"
  by (simp add: cca_getQuote_def worldA_def quote2_def record_call_def)

lemma buy_worldA:
  "buy worldA ccaClient0 ''0xRWA'' ''AAPL'' ''user@example.com'' None (Some (Num 100)) None =
     (Inl (Err OrderFailedException
             ''Order creation failed: Internal server error (status: 500)''),
      \<lparr>initialized = True,
         calls = [AuthVerify, GetTopupAddress, GetAccountStatus, GetAssetQuote ''AAPL'',
                  GetAccountFunds, TransferToken (Some ''0xE5C0'') ''0xUSDC'' (Num 100),
                  PostOrders order2],
         topupAddress = Some ''0xE5C0'', authToken = Some ''token''\<rparr>)"
  by (simp add: cca_defs cca_example_defs toFixed_small_numeral)

text \<open>
  Claim C2 as stated fails on this run of \<open>buy\<close>: the transfer to the top-up address is
  confirmed with hash \<open>0x7a11\<close>, the order request then fails, and the error that
  reaches the caller is an \<open>OrderFailedException\<close> whose message does not contain the
  hash. An error is its class and its message, and \<open>OrderFailedException\<close> has no other
  field.
\<close>

theorem executeTrade_order_failure_drops_hash:
  "(let (r, st) = buy worldA ccaClient0 ''0xRWA'' ''AAPL'' ''user@example.com'' None
                    (Some (Num 100)) None
    in transferToken worldA (Some ''0xE5C0'') ''0xUSDC'' (Num 100) = Inr ''0x7a11''
       \<and> TransferToken (Some ''0xE5C0'') ''0xUSDC'' (Num 100) \<in> set (calls st)
       \<and> r = Inl (Err OrderFailedException
                    ''Order creation failed: Internal server error (status: 500)'')
       \<and> \<not> string_includes
             ''Order creation failed: Internal server error (status: 500)'' ''0x7a11'')"
  unfolding buy_worldA by (simp add: worldA_def)

text \<open>
  Claim C2, amended. Take a run of \<open>executeTrade\<close> (from \<open>buy\<close> or \<open>sell\<close>) whose steps 0
  to 5 succeed, whose transfer to the top-up address is confirmed with hash \<open>h\<close>, and
  whose order request, carrying \<open>h\<close> as \<open>tx_hash\<close>, fails with \<open>err\<close>. The caller gets an
  \<open>OrderFailedException\<close> whose message is \<open>Order creation failed: \<close> followed by the
  message of \<open>err\<close> (for an \<open>APIException\<close>) or by \<open>String(err)\<close>: it is built from \<open>err\<close>
  alone and does not carry \<open>h\<close>. The transfer is made exactly once: steps 0 to 5 make no
  transfer, and after them the client makes the transfer, then the order request, and
  nothing more.
\<close>

theorem executeTrade_order_failure:
  assumes prep: "prepareTrade w st rwaTokenAddress rwaSymbol rwaAmount usdcAmount orderSide
                   = (Inr plan, st_ready)"
    and xfer: "transferToken w (topupAddress st_ready) (transferTokenAddress plan)
                 (transferAmount plan) = Inr h"
    and body: "attrs = \<lparr>wallet = toLowerCase (walletAddress w), tx_hash = h,
                 asset = rwaTokenAddress, asset_symbol = toUpperCase rwaSymbol,
                 side = orderSide, price = plan_price plan, qty = finalRwa plan,
                 notional = finalUsdc plan, chain_id = chainId w,
                 target_chain_id = (case targetChainId of None \<Rightarrow> chainId w | Some t \<Rightarrow> t),
                 user_email = userEmail'\<rparr>"
    and post: "post_orders w attrs = Inl err"
  shows "executeTrade w st rwaTokenAddress rwaSymbol rwaAmount usdcAmount orderSide userEmail'
           targetChainId =
           (Inl (Err OrderFailedException
                   (''Order creation failed: ''
                    @ (if instanceof err APIException then message err
                       else String_of_error err))),
            st_ready\<lparr>calls := calls st_ready @
              [TransferToken (topupAddress st_ready) (transferTokenAddress plan)
                 (transferAmount plan),
               PostOrders attrs]\<rparr>)
         \<and> (\<exists>xs. calls st_ready = calls st @ xs \<and> filter is_transfer xs = [])"
proof -
  from prepareTrade_keeps [OF prep]
  have keeps: "\<exists>xs. calls st_ready = calls st @ xs \<and> filter is_transfer xs = []"
    and tok: "truthy_string (authToken st_ready)"
    by simp_all
  let ?st1 = "record_call (TransferToken (topupAddress st_ready) (transferTokenAddress plan)
                 (transferAmount plan)) st_ready"
  have tok1: "truthy_string (authToken ?st1)"
    using tok by (simp add: record_call_def)
  have order: "createOrder w ?st1 (walletAddress w) h rwaTokenAddress rwaSymbol orderSide
        (plan_price plan) (finalRwa plan) (finalUsdc plan) (chainId w) userEmail' targetChainId
      = (Inl (Err OrderFailedException
                   (''Order creation failed: ''
                    @ (if instanceof err APIException then message err
                       else String_of_error err))),
         record_call (PostOrders attrs) ?st1)"
    unfolding createOrder_def Let_def body [symmetric]
    using tok1 post by simp
  have "settleTrade w st_ready rwaTokenAddress rwaSymbol orderSide userEmail' targetChainId plan
      = (Inl (Err OrderFailedException
                   (''Order creation failed: ''
                    @ (if instanceof err APIException then message err
                       else String_of_error err))),
         record_call (PostOrders attrs) ?st1)"
    unfolding settleTrade_def Let_def xfer by (simp add: order)
  then have "executeTrade w st rwaTokenAddress rwaSymbol rwaAmount usdcAmount orderSide
      userEmail' targetChainId
      = (Inl (Err OrderFailedException
                   (''Order creation failed: ''
                    @ (if instanceof err APIException then message err
                       else String_of_error err))),
         record_call (PostOrders attrs) ?st1)"
    unfolding executeTrade_def prep by simp
  with keeps show ?thesis
    by (simp add: record_call_def)
qed


theorem executeTrade_order_failure_witness:
  "executeTrade worldA ccaClient0 ''0xRWA'' ''AAPL'' None (Some (Num 100)) BUY
     ''user@example.com'' None =
     (Inl (Err OrderFailedException
             ''Order creation failed: Internal server error (status: 500)''),
      ccaClientReady\<lparr>calls := calls ccaClientReady @
        [TransferToken (Some ''0xE5C0'') ''0xUSDC'' (Num 100), PostOrders order2]\<rparr>)
   \<and> filter is_transfer (calls ccaClientReady) = []"
proof -
  have prep: "prepareTrade worldA ccaClient0 ''0xRWA'' ''AAPL'' None (Some (Num 100)) BUY
      = (Inr plan2, ccaClientReady)"
    by (simp add: cca_defs cca_example_defs toFixed_small_numeral)
  have xfer: "transferToken worldA (topupAddress ccaClientReady) (transferTokenAddress plan2)
      (transferAmount plan2) = Inr ''0x7a11''"
    by (simp add: worldA_def)
  have body: "order2 = \<lparr>wallet = toLowerCase (walletAddress worldA), tx_hash = ''0x7a11'',
                 asset = ''0xRWA'', asset_symbol = toUpperCase ''AAPL'',
                 side = BUY, price = plan_price plan2, qty = finalRwa plan2,
                 notional = finalUsdc plan2, chain_id = chainId worldA,
                 target_chain_id = (case None of None \<Rightarrow> chainId worldA | Some t \<Rightarrow> t),
                 user_email = ''user@example.com''\<rparr>"
    by (simp add: order2_def worldA_def plan2_def toLowerCase_def toUpperCase_def)
  have post: "post_orders worldA order2
      = Inl (Err APIException ''Internal server error (status: 500)'')"
    by (simp add: worldA_def)
  from executeTrade_order_failure [OF prep xfer body post]
  show ?thesis
    by (simp add: instanceof_def ccaClientReady_def ccaClient0_def plan2_def)
qed

section \<open>Facts about the Market Maker client\<close>

lemmas mm_example_defs = offerDynamic_def offerDynamicNoRate_def offerDynamicBadRate_def offerFixed_def mmWorld_def
  mmClient1_def

lemmas mm_defs = mm_initialize_def takeSelectedOffer_def tradeAttempt_def mm_trade_def
  FIXED_PRICING_def DYNAMIC_PRICING_def record_call_def truthy_number_def truthy_string_def
  BigInt_def BigInt_error_def trim_def is_js_space_def digit_value_def parse_natural_def
  pow10_def jgt_def instanceof_def String_of_error_def


lemma mm_trade_with_offer:
  assumes init: "(if \<not> initialized st then mm_initialize w st else (None, st)) = (None, st_init)"
    and targetSell: "targetSell = (case fromAmount' of None \<Rightarrow> None
                       | Some a \<Rightarrow> if truthy_number a then Some a else None)"
    and targetBuy: "targetBuy = (case toAmount' of None \<Rightarrow> None
                       | Some a \<Rightarrow> if truthy_number a then Some a else None)"
    and offers: "getBestOffers w toToken' fromToken' targetSell targetBuy
                   = Inr (selectedOffer # others)"
    and st_offers: "st_offers = record_call
                      (GetBestOffers toToken' fromToken' targetSell targetBuy) st_init"
  shows "mm_trade w st fromToken' toToken' fromAmount' toAmount' affiliate =
     (case (case BigInt (withdrawalAmountPaid selectedOffer) of
              None \<Rightarrow> (Inl (BigInt_error (withdrawalAmountPaid selectedOffer)), st_offers)
            | Some wei \<Rightarrow>
                (case takeSelectedOffer w st_offers selectedOffer fromToken' wei affiliate of
                   (Inl e, st2) \<Rightarrow> (Inl e, st2)
                 | (Inr txHash', st2) \<Rightarrow>
                     (Inr \<lparr>sellTokenAddress = fromToken',
                           buyTokenAddress = toToken',
                           sellAmount = jdiv (Num (of_int wei))
                             (pow10 (parseInt w (withdrawalAmountPaidDecimals selectedOffer))),
                           buyAmount =
                             (if jgt (parseFloat w (pricePerUnit selectedOffer)) (Num 0)
                              then jdiv (jdiv (Num (of_int wei))
                                     (pow10 (parseInt w
                                        (withdrawalAmountPaidDecimals selectedOffer))))
                                     (parseFloat w (pricePerUnit selectedOffer))
                              else Num 0),
                           rate = parseFloat w (pricePerUnit selectedOffer),
                           source = ''market_maker'',
                           timestamp = mm_now w,
                           txHash = txHash',
                           orderId = Some (offer_id selectedOffer),
                           network = mm_network w,
                           status = ''completed''\<rparr>, st2))) of
        (Inr result, st2) \<Rightarrow> (Inr result, st2)
      | (Inl err, st2) \<Rightarrow>
          if instanceof err NoOffersAvailableException \<or> instanceof err MarketMakerWeb3Exception
          then (Inl err, st2)
          else (Inl (Err MarketMakerWeb3Exception
                       (''Trade execution failed: '' @ String_of_error err)), st2))"
  unfolding mm_trade_def init tradeAttempt_def Let_def st_offers
    offers [unfolded targetSell targetBuy] targetSell targetBuy
  by (simp only: prod.case option.case sum.case list.case)

lemma takeSelectedOffer_missing_rate:
  assumes "pricingType selectedOffer = DYNAMIC_PRICING"
    and "\<not> truthy_string (depositToWithdrawalRate selectedOffer)"
  shows "takeSelectedOffer w st selectedOffer fromToken' wei affiliate =
           (Inl (Err MarketMakerWeb3Exception
                   (''Dynamic offer '' @ offer_id selectedOffer
                    @ '' missing depositToWithdrawalRate'')), st)"
  using assms unfolding takeSelectedOffer_def truthy_string_def
  by (cases "depositToWithdrawalRate selectedOffer") simp_all

lemma takeSelectedOffer_dynamic:
  assumes "pricingType selectedOffer = DYNAMIC_PRICING"
    and "depositToWithdrawalRate selectedOffer = Some r" "r \<noteq> []"
  shows "takeSelectedOffer w st selectedOffer fromToken' wei affiliate =
           (case BigInt r of
              None \<Rightarrow> (Inl (BigInt_error r), st)
            | Some maxRate \<Rightarrow>
                (takeOfferDynamic w (offer_id selectedOffer) fromToken' wei maxRate affiliate,
                 record_call (TakeOfferDynamic (offer_id selectedOffer) fromToken' wei maxRate
                                affiliate) st))"
  using assms unfolding takeSelectedOffer_def by simp

lemma takeSelectedOffer_fixed:
  assumes "pricingType selectedOffer \<noteq> DYNAMIC_PRICING"
  shows "takeSelectedOffer w st selectedOffer fromToken' wei affiliate =
           (takeOfferFixed w (offer_id selectedOffer) fromToken' wei affiliate,
            record_call (TakeOfferFixed (offer_id selectedOffer) fromToken' wei affiliate) st)"
  using assms unfolding takeSelectedOffer_def by simp

lemma instanceof_self [simp]: "instanceof (Err c m) c"
  by (simp add: instanceof_def)

lemma SyntaxError_not_passed [simp]:
  "\<not> instanceof (BigInt_error s) NoOffersAvailableException"
  "\<not> instanceof (BigInt_error s) MarketMakerWeb3Exception"
  by (simp_all add: instanceof_def BigInt_error_def)


text \<open>
  Claim C7, amended. Take a run of \<open>MarketMakerClient.trade\<close> that is initialized and
  whose best-offers request answers a non-empty list; \<open>selectedOffer\<close> is its first
  element. \<open>amount\<close> is \<open>BigInt(withdrawalAmountPaid)\<close> and \<open>maxRate\<close> is
  \<open>BigInt(depositToWithdrawalRate)\<close>.
  \<^item> Dynamic pricing with \<open>depositToWithdrawalRate\<close> missing or empty: the call throws a
    \<open>MarketMakerWeb3Exception\<close>, and the best-offers request is the only call made.
  \<^item> Dynamic pricing with the rate present, both conversions succeeding: the one
    further call is \<open>takeOfferDynamic(offerId, fromToken, amount, maxRate, affiliate)\<close>,
    and its hash is the hash of the result.
  \<^item> Any other pricing type, the amount converting: the one further call is
    \<open>takeOfferFixed(offerId, fromToken, amount, affiliate)\<close>.
  \<^item> A conversion that throws (the amount, or the rate of a dynamic offer): the call
    throws a \<open>MarketMakerWeb3Exception\<close> and nothing is submitted.
\<close>

theorem trade_pricing_branch:
  assumes init: "(if \<not> initialized st then mm_initialize w st else (None, st)) = (None, st_init)"
    and targetSell: "targetSell = (case fromAmount' of None \<Rightarrow> None
                       | Some a \<Rightarrow> if truthy_number a then Some a else None)"
    and targetBuy: "targetBuy = (case toAmount' of None \<Rightarrow> None
                       | Some a \<Rightarrow> if truthy_number a then Some a else None)"
    and offers: "getBestOffers w toToken' fromToken' targetSell targetBuy
                   = Inr (selectedOffer # others)"
    and st_offers: "st_offers = record_call
                      (GetBestOffers toToken' fromToken' targetSell targetBuy) st_init"
  shows
    "(pricingType selectedOffer = DYNAMIC_PRICING
        \<and> \<not> truthy_string (depositToWithdrawalRate selectedOffer)
      \<longrightarrow> (\<exists>msg. mm_trade w st fromToken' toToken' fromAmount' toAmount' affiliate
                    = (Inl (Err MarketMakerWeb3Exception msg), st_offers)))
     \<and> (\<forall>amount r maxRate.
           pricingType selectedOffer = DYNAMIC_PRICING
           \<and> depositToWithdrawalRate selectedOffer = Some r \<and> r \<noteq> []
           \<and> BigInt (withdrawalAmountPaid selectedOffer) = Some amount
           \<and> BigInt r = Some maxRate
         \<longrightarrow> snd (mm_trade w st fromToken' toToken' fromAmount' toAmount' affiliate)
               = record_call (TakeOfferDynamic (offer_id selectedOffer) fromToken' amount
                                maxRate affiliate) st_offers
             \<and> (\<forall>h. takeOfferDynamic w (offer_id selectedOffer) fromToken' amount maxRate
                        affiliate = Inr h
                  \<longrightarrow> (\<exists>result.
                         fst (mm_trade w st fromToken' toToken' fromAmount' toAmount' affiliate)
                           = Inr result \<and> txHash result = h)))
     \<and> (\<forall>amount.
           pricingType selectedOffer \<noteq> DYNAMIC_PRICING
           \<and> BigInt (withdrawalAmountPaid selectedOffer) = Some amount
         \<longrightarrow> snd (mm_trade w st fromToken' toToken' fromAmount' toAmount' affiliate)
               = record_call (TakeOfferFixed (offer_id selectedOffer) fromToken' amount
                                affiliate) st_offers
             \<and> (\<forall>h. takeOfferFixed w (offer_id selectedOffer) fromToken' amount affiliate
                        = Inr h
                  \<longrightarrow> (\<exists>result.
                         fst (mm_trade w st fromToken' toToken' fromAmount' toAmount' affiliate)
                           = Inr result \<and> txHash result = h)))
     \<and> (BigInt (withdrawalAmountPaid selectedOffer) = None
          \<or> (pricingType selectedOffer = DYNAMIC_PRICING
              \<and> (\<exists>r. depositToWithdrawalRate selectedOffer = Some r \<and> r \<noteq> []
                       \<and> BigInt r = None))
         \<longrightarrow> (\<exists>msg. mm_trade w st fromToken' toToken' fromAmount' toAmount' affiliate
                       = (Inl (Err MarketMakerWeb3Exception msg), st_offers)))"
proof -
  note t = mm_trade_with_offer [OF init targetSell targetBuy offers st_offers, of affiliate]
  have no_amount: "\<exists>msg. mm_trade w st fromToken' toToken' fromAmount' toAmount' affiliate
                    = (Inl (Err MarketMakerWeb3Exception msg), st_offers)"
    if "BigInt (withdrawalAmountPaid selectedOffer) = None"
    unfolding t using that by simp
  have missing: "\<exists>msg. mm_trade w st fromToken' toToken' fromAmount' toAmount' affiliate
                    = (Inl (Err MarketMakerWeb3Exception msg), st_offers)"
    if dyn: "pricingType selectedOffer = DYNAMIC_PRICING"
      and none: "\<not> truthy_string (depositToWithdrawalRate selectedOffer)"
  proof (cases "BigInt (withdrawalAmountPaid selectedOffer)")
    case None
    then show ?thesis by (rule no_amount)
  next
    case (Some wei)
    show ?thesis
      unfolding t Some
      by (simp add: takeSelectedOffer_missing_rate [OF dyn none])
  qed
  have bad_rate: "\<exists>msg. mm_trade w st fromToken' toToken' fromAmount' toAmount' affiliate
                    = (Inl (Err MarketMakerWeb3Exception msg), st_offers)"
    if dyn: "pricingType selectedOffer = DYNAMIC_PRICING"
      and r: "depositToWithdrawalRate selectedOffer = Some r" "r \<noteq> []" "BigInt r = None"
    for r
  proof (cases "BigInt (withdrawalAmountPaid selectedOffer)")
    case None
    then show ?thesis by (rule no_amount)
  next
    case (Some wei)
    show ?thesis
      unfolding t Some
      by (simp add: takeSelectedOffer_dynamic [OF dyn r(1,2)] r(3))
  qed
  have dynamic: "snd (mm_trade w st fromToken' toToken' fromAmount' toAmount' affiliate)
               = record_call (TakeOfferDynamic (offer_id selectedOffer) fromToken' amount
                                maxRate affiliate) st_offers
             \<and> (\<forall>h. takeOfferDynamic w (offer_id selectedOffer) fromToken' amount maxRate
                        affiliate = Inr h
                  \<longrightarrow> (\<exists>result.
                         fst (mm_trade w st fromToken' toToken' fromAmount' toAmount' affiliate)
                           = Inr result \<and> txHash result = h))"
    if dyn: "pricingType selectedOffer = DYNAMIC_PRICING"
      and r: "depositToWithdrawalRate selectedOffer = Some r" "r \<noteq> []"
      and a: "BigInt (withdrawalAmountPaid selectedOffer) = Some amount"
      and m: "BigInt r = Some maxRate"
    for amount r maxRate
    unfolding t a
    by (cases "takeOfferDynamic w (offer_id selectedOffer) fromToken' amount maxRate affiliate")
      (simp_all add: takeSelectedOffer_dynamic [OF dyn r] m)
  have fixed: "snd (mm_trade w st fromToken' toToken' fromAmount' toAmount' affiliate)
               = record_call (TakeOfferFixed (offer_id selectedOffer) fromToken' amount
                                affiliate) st_offers
             \<and> (\<forall>h. takeOfferFixed w (offer_id selectedOffer) fromToken' amount affiliate
                        = Inr h
                  \<longrightarrow> (\<exists>result.
                         fst (mm_trade w st fromToken' toToken' fromAmount' toAmount' affiliate)
                           = Inr result \<and> txHash result = h))"
    if fx: "pricingType selectedOffer \<noteq> DYNAMIC_PRICING"
      and a: "BigInt (withdrawalAmountPaid selectedOffer) = Some amount"
    for amount
    unfolding t a
    by (cases "takeOfferFixed w (offer_id selectedOffer) fromToken' amount affiliate")
      (simp_all add: takeSelectedOffer_fixed [OF fx])
  show ?thesis
    using missing dynamic fixed no_amount bad_rate by blast
qed

text \<open>
  Claim C7 as stated fails on this run: the offer is dynamic and its
  \<open>depositToWithdrawalRate\<close> is present, \<open>1.5\<close>; \<open>BigInt\<close> rejects it, so
  \<open>takeOfferDynamic\<close> is not called and the call throws.
\<close>

theorem trade_dynamic_rate_not_integer:
  "pricingType offerDynamicBadRate = DYNAMIC_PRICING
   \<and> depositToWithdrawalRate offerDynamicBadRate = Some ''1.5''
   \<and> mm_trade (mmWorld [offerDynamicBadRate]) mmClient1 ''0xUSDC'' ''0xRWA'' (Some (Num 1))
        None None =
       (Inl (Err MarketMakerWeb3Exception
               ''Trade execution failed: SyntaxError: Cannot convert 1.5 to a BigInt''),
        mmClient1\<lparr>calls := [GetBestOffers ''0xRWA'' ''0xUSDC'' (Some (Num 1)) None]\<rparr>)"
  by (simp add: mm_defs mm_example_defs)

theorem trade_pricing_branch_witness:
  "mm_trade (mmWorld [offerDynamicNoRate]) mmClient1 ''0xUSDC'' ''0xRWA'' (Some (Num 1))
        None None =
     (Inl (Err MarketMakerWeb3Exception ''Dynamic offer 42 missing depositToWithdrawalRate''),
      mmClient1\<lparr>calls := [GetBestOffers ''0xRWA'' ''0xUSDC'' (Some (Num 1)) None]\<rparr>)
   \<and> calls (snd (mm_trade (mmWorld [offerDynamic]) mmClient1 ''0xUSDC'' ''0xRWA''
                   (Some (Num 1)) None None)) =
       [GetBestOffers ''0xRWA'' ''0xUSDC'' (Some (Num 1)) None,
        TakeOfferDynamic ''42'' ''0xUSDC'' 1000000 2000000 None]
   \<and> calls (snd (mm_trade (mmWorld [offerFixed]) mmClient1 ''0xUSDC'' ''0xRWA''
                   (Some (Num 1)) None None)) =
       [GetBestOffers ''0xRWA'' ''0xUSDC'' (Some (Num 1)) None,
        TakeOfferFixed ''42'' ''0xUSDC'' 1000000 None]"
proof -
  let ?g = "GetBestOffers ''0xRWA'' ''0xUSDC'' (Some (Num 1)) None"
  have init: "(if \<not> initialized mmClient1 then mm_initialize (mmWorld os) mmClient1
               else (None, mmClient1)) = (None, mmClient1)" for os
    by (simp add: mmClient1_def)
  have ts: "Some (Num 1) = (case Some (Num 1) of None \<Rightarrow> None
                       | Some a \<Rightarrow> if truthy_number a then Some a else None)"
    by (simp add: truthy_number_def)
  have tb: "None = (case None :: number option of None \<Rightarrow> None
                       | Some a \<Rightarrow> if truthy_number a then Some a else None)"
    by simp
  have offers: "getBestOffers (mmWorld (x # [])) ''0xRWA'' ''0xUSDC'' (Some (Num 1)) None
                  = Inr (x # [])" for x
    by (simp add: mmWorld_def)
  note b1 = trade_pricing_branch
      [OF init ts tb offers [of offerDynamicNoRate] refl, where affiliate = None]
  note b2 = trade_pricing_branch
      [OF init ts tb offers [of offerDynamic] refl, where affiliate = None]
  note b3 = trade_pricing_branch
      [OF init ts tb offers [of offerFixed] refl, where affiliate = None]
  have amt: "BigInt (withdrawalAmountPaid offerDynamic) = Some 1000000"
    "BigInt (withdrawalAmountPaid offerFixed) = Some 1000000"
    "BigInt ''2000000'' = Some 2000000"
    by (simp_all add: mm_defs mm_example_defs)
  have 1: "\<exists>msg. mm_trade (mmWorld [offerDynamicNoRate]) mmClient1 ''0xUSDC'' ''0xRWA''
        (Some (Num 1)) None None = (Inl (Err MarketMakerWeb3Exception msg), record_call ?g mmClient1)"
    using b1
    by (simp add: mm_example_defs truthy_string_def)
  have 1: "mm_trade (mmWorld [offerDynamicNoRate]) mmClient1 ''0xUSDC'' ''0xRWA''
        (Some (Num 1)) None None =
     (Inl (Err MarketMakerWeb3Exception ''Dynamic offer 42 missing depositToWithdrawalRate''),
      mmClient1\<lparr>calls := [?g]\<rparr>)"
    using 1 by (simp add: mm_defs mm_example_defs)
  have 2: "snd (mm_trade (mmWorld [offerDynamic]) mmClient1 ''0xUSDC'' ''0xRWA''
                   (Some (Num 1)) None None) =
       record_call (TakeOfferDynamic (offer_id offerDynamic) ''0xUSDC'' 1000000 2000000 None)
         (record_call ?g mmClient1)"
    using b2 amt
    by (simp add: offerDynamic_def)
  have 3: "snd (mm_trade (mmWorld [offerFixed]) mmClient1 ''0xUSDC'' ''0xRWA''
                   (Some (Num 1)) None None) =
       record_call (TakeOfferFixed (offer_id offerFixed) ''0xUSDC'' 1000000 None)
         (record_call ?g mmClient1)"
    using b3 amt
    by (simp add: offerFixed_def offerDynamic_def FIXED_PRICING_def DYNAMIC_PRICING_def)
  show ?thesis
    unfolding 1 2 3
    by (simp add: record_call_def mm_example_defs)
qed


end
